theory Spec2Isabelle
  imports Main
begin

section \<open>Postgres warehouse client: data model\<close>

text \<open>
  Strings of the program are modelled as \<^typ>\<open>string\<close>; only equality and concatenation of
  strings are used by the code. Objects used as dictionaries are maps. JavaScript numbers that
  carry type OIDs and ports are integers.
\<close>

text \<open>
  Modelled from the spec: the enum \<open>DimensionType\<close> is declared in the common package,
  which is not among the sources; its members are the five categories the specification
  lists (NUMBER, DATE, TIMESTAMP, BOOLEAN, STRING).
\<close>

datatype DimensionType = STRING | NUMBER | TIMESTAMP | DATE | BOOLEAN

text \<open>
  Modelled from the spec: the classes \<open>WarehouseConnectionError\<close> and \<open>WarehouseQueryError\<close>
  are declared in the common package, which is not among the sources; they are the two error
  kinds of the specification, connection failure and query failure, each wrapping a message.
  Errors are values: \<open>Error\<close> is the plain JavaScript error the code itself throws,
  \<open>URIError\<close> the error \<open>encodeURIComponent\<close> throws and \<open>LibraryError\<close> whatever one
  of the client libraries throws; \<open>message\<close> reads the property \<open>message\<close> of any of them.
\<close>

datatype error =
    Error string
  | URIError string
  | LibraryError string
  | WarehouseConnectionError string
  | WarehouseQueryError string

fun message :: "error \<Rightarrow> string" where
  "message (Error m) = m"
| "message (URIError m) = m"
| "message (LibraryError m) = m"
| "message (WarehouseConnectionError m) = m"
| "message (WarehouseQueryError m) = m"

text \<open>
  The value of \<open>PoolConfig['ssl']\<close> as this code produces it: a boolean, or a connection
  options object of which only \<open>rejectUnauthorized\<close> is set.
\<close>

datatype ssl_config = SSLBool bool | SSLOptions (rejectUnauthorized: bool)

subsection \<open>getSSLConfigFromMode\<close>

definition dquote :: char where
  "dquote = CHR 0x22"

definition squote :: char where
  "squote = CHR 0x27"

definition getSSLConfigFromMode :: "string \<Rightarrow> error + ssl_config" where
  "getSSLConfigFromMode mode =
     (if mode = ''disable'' then Inr (SSLBool False)
      else if mode = ''no-verify'' then Inr (SSLOptions False)
      else if mode = ''allow'' \<or> mode = ''prefer'' \<or> mode = ''require''
            \<or> mode = ''verify-ca'' \<or> mode = ''verify-full'' then Inr (SSLBool True)
      else Inl (Error (''SSL mode '' @ [dquote] @ mode @ [dquote] @ '' not understood.'')))"

text \<open>The seven labels of the switch, in source order.\<close>

definition ssl_modes :: "string list" where
  "ssl_modes = [''disable'', ''no-verify'', ''allow'', ''prefer'', ''require'',
                ''verify-ca'', ''verify-full'']"

subsection \<open>mapFieldType\<close>

text \<open>
  The case labels of \<open>mapFieldType\<close>, in source order, grouped by the value their branch
  returns. Each label is a member of the enum \<open>PostgresTypes\<close>, written here by its string
  value. The members \<open>INT\<close>, \<open>JSON\<close>, \<open>JSONB\<close>, \<open>CHAR\<close>, \<open>CHARACTER\<close>, \<open>NCHAR\<close>,
  \<open>BPCHAR\<close>, \<open>VARCHAR\<close>, \<open>CHARACTER_VARYING\<close>, \<open>NVARCHAR\<close> and \<open>TEXT\<close> label no case.
\<close>

definition number_type_names :: "string list" where
  "number_type_names =
     [''decimal'', ''numeric'', ''integer'', ''money'', ''smallserial'', ''serial'', ''serial2'',
      ''serial4'', ''serial8'', ''bigserial'', ''int2'', ''int4'', ''int8'', ''bigint'',
      ''smallint'', ''float'', ''float4'', ''float8'', ''double precision'', ''real'']"

definition date_type_names :: "string list" where
  "date_type_names = [''date'']"

definition timestamp_type_names :: "string list" where
  "timestamp_type_names =
     [''time'', ''timetz'', ''timestamp'', ''timestamptz'', ''time without time zone'',
      ''timestamp without time zone'']"

definition boolean_type_names :: "string list" where
  "boolean_type_names = [''boolean'', ''bool'']"

definition mapFieldType :: "string \<Rightarrow> DimensionType" where
  "mapFieldType type =
     (if type \<in> set number_type_names then NUMBER
      else if type \<in> set date_type_names then DATE
      else if type \<in> set timestamp_type_names then TIMESTAMP
      else if type \<in> set boolean_type_names then BOOLEAN
      else STRING)"

definition mapFieldType_cases :: "string list" where
  "mapFieldType_cases =
     number_type_names @ date_type_names @ timestamp_type_names @ boolean_type_names"

subsection \<open>convertDataTypeIdToDimensionType\<close>

text \<open>
  The table \<open>pg.types.builtins\<close> belongs to the \<open>pg\<close> library, not to this program; the
  function takes the thirteen OIDs it reads from it as a parameter.
\<close>

record builtins =
  NUMERIC_oid :: int
  MONEY_oid :: int
  INT2_oid :: int
  INT4_oid :: int
  INT8_oid :: int
  FLOAT4_oid :: int
  FLOAT8_oid :: int
  DATE_oid :: int
  TIME_oid :: int
  TIMETZ_oid :: int
  TIMESTAMP_oid :: int
  TIMESTAMPTZ_oid :: int
  BOOL_oid :: int

definition convertDataTypeIdToDimensionType :: "builtins \<Rightarrow> int \<Rightarrow> DimensionType" where
  "convertDataTypeIdToDimensionType b dataTypeId =
     (if dataTypeId = NUMERIC_oid b \<or> dataTypeId = MONEY_oid b \<or> dataTypeId = INT2_oid b
         \<or> dataTypeId = INT4_oid b \<or> dataTypeId = INT8_oid b \<or> dataTypeId = FLOAT4_oid b
         \<or> dataTypeId = FLOAT8_oid b then NUMBER
      else if dataTypeId = DATE_oid b then DATE
      else if dataTypeId = TIME_oid b \<or> dataTypeId = TIMETZ_oid b
         \<or> dataTypeId = TIMESTAMP_oid b \<or> dataTypeId = TIMESTAMPTZ_oid b then TIMESTAMP
      else if dataTypeId = BOOL_oid b then BOOLEAN
      else STRING)"

definition convertDataTypeId_cases :: "builtins \<Rightarrow> int list" where
  "convertDataTypeId_cases b =
     [NUMERIC_oid b, MONEY_oid b, INT2_oid b, INT4_oid b, INT8_oid b, FLOAT4_oid b, FLOAT8_oid b,
      DATE_oid b, TIME_oid b, TIMETZ_oid b, TIMESTAMP_oid b, TIMESTAMPTZ_oid b, BOOL_oid b]"

text \<open>The OIDs the \<open>pg\<close> library assigns, used where a concrete table is evaluated.\<close>

definition pg_builtins :: builtins where
  "pg_builtins =
     \<lparr>NUMERIC_oid = 1700, MONEY_oid = 790, INT2_oid = 21, INT4_oid = 23, INT8_oid = 20,
      FLOAT4_oid = 700, FLOAT8_oid = 701, DATE_oid = 1082, TIME_oid = 1083, TIMETZ_oid = 1266,
      TIMESTAMP_oid = 1114, TIMESTAMPTZ_oid = 1184, BOOL_oid = 16\<rparr>"

section \<open>The client\<close>

text \<open>
  Several object types of the program have fields of the same name. The request entries, the
  catalog rows and the credentials keep the source's field names; the fields of the pool
  configuration are prefixed \<open>cfg_\<close>, those of the tunnel secrets \<open>tunnel_\<close>, those of the
  SSH library's configuration \<open>ssh_\<close>, those of the client object \<open>client_\<close>, those of the library's query
  result \<open>res_\<close>, those of the object \<open>runQuery\<close> returns \<open>rq_\<close>. An optional
  field (\<open>undefined\<close> when absent) is an \<open>option\<close>.
\<close>

record PoolConfig =
  cfg_host :: "string option"
  cfg_port :: "int option"
  cfg_database :: "string option"
  cfg_user :: "string option"
  cfg_password :: "string option"
  cfg_ssl :: "ssl_config option"

text \<open>
  Modelled from the spec: the types \<open>SSHTunnelConfigSecrets\<close> and
  \<open>FullPostgresCredentials\<close> are declared in the common package, which is not among the
  sources; their fields here are the ones this code reads.
\<close>

record SSHTunnelConfigSecrets =
  tunnel_username :: string
  tunnel_privateKey :: string
  tunnel_port :: int
  tunnel_host :: string

record SSHConfig =
  ssh_username :: string
  ssh_privateKey :: string
  ssh_port :: int
  ssh_host :: string

record PostgresClient =
  client_config :: PoolConfig
  client_sshTunnel :: "SSHTunnelConfigSecrets option"

record FullPostgresCredentials =
  host :: string
  port :: int
  dbname :: string
  user :: string
  password :: string
  sslmode :: "string option"
  sshTunnel :: "SSHTunnelConfigSecrets option"

text \<open>What \<open>pool.query\<close> resolves to: the column descriptions and the rows.\<close>

record FieldDef =
  name :: string
  dataTypeID :: int

record 'row QueryResult =
  res_fields :: "FieldDef list"
  res_rows :: "'row list"

text \<open>The object \<open>{ type: ... }\<close> stored per column, and the object \<open>runQuery\<close> returns.\<close>

record WarehouseField =
  field_type :: DimensionType

record 'row RunQueryResult =
  rq_fields :: "string \<rightharpoonup> WarehouseField"
  rq_rows :: "'row list"

subsection \<open>The libraries and their effects\<close>

text \<open>
  The SSH and pool libraries are outside the program. Their behaviour is a parameter: each
  call either succeeds or throws an error with a message. Every call the program makes is
  recorded as an event, so that a run is a pair of the calls made, in order, and the outcome.
\<close>

record 'row libs =
  ssh_connect :: "SSHConfig \<Rightarrow> string option"
  ssh_addTunnel :: "SSHConfig \<Rightarrow> string option \<Rightarrow> int option \<Rightarrow> string + int"
  new_Pool :: "PoolConfig \<Rightarrow> string option"
  pool_query :: "PoolConfig \<Rightarrow> string \<Rightarrow> string + 'row QueryResult"
  pg_types :: builtins

datatype event =
    SSHConnect SSHConfig
  | AddTunnel SSHConfig "string option" "int option"
  | NewPool PoolConfig
  | PoolQuery PoolConfig string

type_synonym 'a io = "event list \<times> (error + 'a)"

definition io_return :: "'a \<Rightarrow> 'a io" where
  "io_return x = ([], Inr x)"

definition io_throw :: "error \<Rightarrow> 'a io" where
  "io_throw e = ([], Inl e)"

definition io_bind :: "'a io \<Rightarrow> ('a \<Rightarrow> 'b io) \<Rightarrow> 'b io" where
  "io_bind m f =
     (case m of
        (tr, Inl e) \<Rightarrow> (tr, Inl e)
      | (tr, Inr x) \<Rightarrow> (case f x of (tr', r) \<Rightarrow> (tr @ tr', r)))"

text \<open>\<open>try { m } catch (e) { h e }\<close>: the handler sees every error of the body.\<close>

definition io_catch :: "'a io \<Rightarrow> (error \<Rightarrow> 'a io) \<Rightarrow> 'a io" where
  "io_catch m h =
     (case m of
        (tr, Inl e) \<Rightarrow> (case h e of (tr', r) \<Rightarrow> (tr @ tr', r))
      | (tr, Inr x) \<Rightarrow> (tr, Inr x))"

definition call_ssh_connect :: "'row libs \<Rightarrow> SSHConfig \<Rightarrow> unit io" where
  "call_ssh_connect L sshConfig =
     ([SSHConnect sshConfig],
      case ssh_connect L sshConfig of Some m \<Rightarrow> Inl (LibraryError m) | None \<Rightarrow> Inr ())"

definition call_addTunnel ::
  "'row libs \<Rightarrow> SSHConfig \<Rightarrow> string option \<Rightarrow> int option \<Rightarrow> int io" where
  "call_addTunnel L sshConfig remoteAddr remotePort =
     ([AddTunnel sshConfig remoteAddr remotePort],
      case ssh_addTunnel L sshConfig remoteAddr remotePort of
        Inl m \<Rightarrow> Inl (LibraryError m) | Inr localPort \<Rightarrow> Inr localPort)"

text \<open>A pool is identified by the configuration it was created with.\<close>

definition call_new_Pool :: "'row libs \<Rightarrow> PoolConfig \<Rightarrow> PoolConfig io" where
  "call_new_Pool L config =
     ([NewPool config],
      case new_Pool L config of Some m \<Rightarrow> Inl (LibraryError m) | None \<Rightarrow> Inr config)"

definition call_pool_query :: "'row libs \<Rightarrow> PoolConfig \<Rightarrow> string \<Rightarrow> 'row QueryResult io" where
  "call_pool_query L pool sql =
     ([PoolQuery pool sql],
      case pool_query L pool sql of Inl m \<Rightarrow> Inl (LibraryError m) | Inr results \<Rightarrow> Inr results)"

subsection \<open>connect, runQuery, test\<close>

definition connect :: "'row libs \<Rightarrow> PostgresClient \<Rightarrow> PoolConfig io" where
  "connect L this =
     io_catch
       (let config = client_config this in
        case client_sshTunnel this of
          Some tunnelSecrets \<Rightarrow>
            (let sshConfig = \<lparr>ssh_username = tunnel_username tunnelSecrets,
                              ssh_privateKey = tunnel_privateKey tunnelSecrets,
                              ssh_port = tunnel_port tunnelSecrets,
                              ssh_host = tunnel_host tunnelSecrets\<rparr> in
             io_bind (call_ssh_connect L sshConfig) (\<lambda>_.
             io_bind (call_addTunnel L sshConfig (cfg_host config) (cfg_port config)) (\<lambda>localPort.
             call_new_Pool L (config\<lparr>cfg_host := Some ''localhost'', cfg_port := Some localPort\<rparr>))))
        | None \<Rightarrow> call_new_Pool L config)
       (\<lambda>e. io_throw (WarehouseConnectionError (message e)))"

text \<open>The reduction of \<open>results.fields\<close> into the \<open>fields\<close> object.\<close>

definition fields_of :: "builtins \<Rightarrow> FieldDef list \<Rightarrow> (string \<rightharpoonup> WarehouseField)" where
  "fields_of b fs =
     foldl (\<lambda>acc f. acc(name f \<mapsto> \<lparr>field_type = convertDataTypeIdToDimensionType b (dataTypeID f)\<rparr>))
       Map.empty fs"

definition runQuery :: "'row libs \<Rightarrow> PostgresClient \<Rightarrow> string \<Rightarrow> 'row RunQueryResult io" where
  "runQuery L this sql =
     io_catch
       (io_bind (connect L this) (\<lambda>pool.
        io_bind (call_pool_query L pool sql) (\<lambda>results.
        io_return \<lparr>rq_fields = fields_of (pg_types L) (res_fields results),
                    rq_rows = res_rows results\<rparr>)))
       (\<lambda>e. io_throw (WarehouseQueryError (message e)))"

definition test :: "'row libs \<Rightarrow> PostgresClient \<Rightarrow> unit io" where
  "test L this = io_bind (runQuery L this ''SELECT 1'') (\<lambda>_. io_return ())"

text \<open>The SQL texts of the \<open>pool.query\<close> calls of a run, in order.\<close>

fun queries_of :: "event list \<Rightarrow> string list" where
  "queries_of [] = []"
| "queries_of (PoolQuery pool sql # tr) = sql # queries_of tr"
| "queries_of (_ # tr) = queries_of tr"

subsection \<open>getCatalog\<close>

record CatalogRequest =
  database :: string
  schema :: string
  table :: string

text \<open>A row of the catalog query: the five selected columns of \<open>information_schema.columns\<close>.\<close>

record CatalogRow =
  table_catalog :: string
  table_schema :: string
  table_name :: string
  column_name :: string
  data_type :: string

text \<open>
  A JavaScript \<open>Set\<close> keeps its elements in insertion order and ignores the insertion of an
  element it has: a list without duplicates, \<open>add\<close> appending at the end.
\<close>

definition Set_add :: "'a list \<Rightarrow> 'a \<Rightarrow> 'a list" where
  "Set_add s x = (if x \<in> set s then s else s @ [x])"

text \<open>
  The distinct elements of a list, each once, in the order of their first occurrences: the
  reading of "deduplicated, in first-occurrence order" that the request sets are compared
  with.
\<close>

fun first_occurrences :: "'a list \<Rightarrow> 'a list" where
  "first_occurrences [] = []"
| "first_occurrences (x # xs) = x # filter (\<lambda>y. y \<noteq> x) (first_occurrences xs)"

record RequestSets =
  databases :: "string list"
  schemas :: "string list"
  tables :: "string list"

text \<open>The template \<open>'${v}'\<close>.\<close>

definition quoted :: "string \<Rightarrow> string" where
  "quoted v = [squote] @ v @ [squote]"

definition request_sets :: "CatalogRequest list \<Rightarrow> RequestSets" where
  "request_sets requests =
     foldl (\<lambda>acc r. \<lparr>databases = Set_add (databases acc) (quoted (database r)),
                     schemas = Set_add (schemas acc) (quoted (schema r)),
                     tables = Set_add (tables acc) (quoted (table r))\<rparr>)
       \<lparr>databases = [], schemas = [], tables = []\<rparr> requests"

text \<open>An array inside a template literal is converted by \<open>join(',')\<close>.\<close>

fun join_comma :: "string list \<Rightarrow> string" where
  "join_comma [] = []"
| "join_comma [x] = x"
| "join_comma (x # y # ys) = x @ '','' @ join_comma (y # ys)"

definition nl :: string where
  "nl = [CHR 0x0A]"

definition catalog_query :: "RequestSets \<Rightarrow> string" where
  "catalog_query s =
     nl @ ''            SELECT table_catalog,''
     @ nl @ ''                   table_schema,''
     @ nl @ ''                   table_name,''
     @ nl @ ''                   column_name,''
     @ nl @ ''                   data_type''
     @ nl @ ''            FROM information_schema.columns''
     @ nl @ ''            WHERE table_catalog IN ('' @ join_comma (databases s) @ '')''
     @ nl @ ''              AND table_schema IN ('' @ join_comma (schemas s) @ '')''
     @ nl @ ''              AND table_name IN ('' @ join_comma (tables s) @ '')''
     @ nl @ ''        ''"

text \<open>
  The catalog object: catalog, schema, table and column names, in this order, lead to the
  dimension type. The accumulator and the objects nested in it are plain objects, created by
  \<open>{}\<close>: a map gives their own properties, and every one of them inherits the members of
  \<open>Object.prototype\<close>, whose names the language fixes. These names are not the program's;
  the prototype is taken as the language defines it, with no member added or removed.
\<close>

type_synonym table_columns = "string \<rightharpoonup> DimensionType"
type_synonym schema_tables = "string \<rightharpoonup> table_columns"
type_synonym catalog_schemas = "string \<rightharpoonup> schema_tables"
type_synonym catalog = "string \<rightharpoonup> catalog_schemas"

definition Object_prototype_names :: "string list" where
  "Object_prototype_names =
     [''constructor'', ''__defineGetter__'', ''__defineSetter__'', ''hasOwnProperty'',
      ''__lookupGetter__'', ''__lookupSetter__'', ''isPrototypeOf'', ''propertyIsEnumerable'',
      ''toString'', ''valueOf'', ''__proto__'', ''toLocaleString'']"

text \<open>
  \<open>obj[k] || {}\<close> for a key that is not a name of \<open>Object.prototype\<close>: the object stored
  under \<open>k\<close>, or a new empty one. For a name of \<open>Object.prototype\<close> that \<open>obj\<close> does not own,
  the expression is the inherited member instead (a function of the language, or
  \<open>Object.prototype\<close> itself for \<open>__proto__\<close>), which is no object of the catalog.
\<close>

definition or_empty :: "('k \<rightharpoonup> 'v) option \<Rightarrow> ('k \<rightharpoonup> 'v)" where
  "or_empty entry = (case entry of None \<Rightarrow> Map.empty | Some m \<Rightarrow> m)"

text \<open>
  The state of the accumulator. \<open>Catalog m\<close>: a catalog object with the own properties \<open>m\<close>,
  in which no catalog, schema or table is stored under a name of \<open>Object.prototype\<close>.
  \<open>Escaped\<close>: a requested row had such a name for its catalog, schema or table, so the
  reduction took an inherited member for a nested object; from there on the program writes
  into objects of the language shared by the whole process (or throws \<open>TypeError\<close> where
  such a write is refused), and what it returns is not followed any further.
\<close>

datatype catalog_object = Catalog catalog | Escaped

text \<open>
  \<open>columns[k] = v\<close> on a plain object, for a string \<open>v\<close>: an own property, except for the
  key \<open>__proto__\<close>, whose inherited setter ignores a value that is not an object and stores
  nothing.
\<close>

definition set_column :: "table_columns \<Rightarrow> string \<Rightarrow> DimensionType \<Rightarrow> table_columns" where
  "set_column columns_obj k v = (if k = ''__proto__'' then columns_obj else columns_obj(k \<mapsto> v))"

definition catalog_step ::
  "CatalogRequest list \<Rightarrow> catalog_object \<Rightarrow> CatalogRow \<Rightarrow> catalog_object" where
  "catalog_step requests acc row =
     (case find (\<lambda>r. database r = table_catalog row \<and> schema r = table_schema row
                      \<and> table r = table_name row) requests of
        None \<Rightarrow> acc
      | Some match \<Rightarrow>
          (case acc of
             Escaped \<Rightarrow> Escaped
           | Catalog m \<Rightarrow>
               if table_catalog row \<in> set Object_prototype_names
                  \<or> table_schema row \<in> set Object_prototype_names
                  \<or> table_name row \<in> set Object_prototype_names
               then Escaped
               else
                 (let schemas_obj = or_empty (m (table_catalog row));
                      tables_obj = or_empty (schemas_obj (table_schema row));
                      columns_obj = or_empty (tables_obj (table_name row))
                  in Catalog (m(table_catalog row \<mapsto>
                       schemas_obj(table_schema row \<mapsto>
                         tables_obj(table_name row \<mapsto>
                           set_column columns_obj (column_name row)
                             (mapFieldType (data_type row)))))))))"

definition catalog_of :: "CatalogRequest list \<Rightarrow> CatalogRow list \<Rightarrow> catalog_object" where
  "catalog_of requests rs = foldl (catalog_step requests) (Catalog Map.empty) rs"

definition getCatalog ::
  "CatalogRow libs \<Rightarrow> PostgresClient \<Rightarrow> CatalogRequest list \<Rightarrow> catalog_object io" where
  "getCatalog L this requests =
     (let s = request_sets requests in
      if length (databases s) \<le> 0 \<or> length (schemas s) \<le> 0 \<or> length (tables s) \<le> 0
      then io_return (Catalog Map.empty)
      else io_bind (runQuery L this (catalog_query s)) (\<lambda>result.
           io_return (catalog_of requests (rq_rows result))))"

text \<open>
  The own properties of the nested objects: \<open>result[c][s][t][col]\<close> and the levels above
  it, for names the objects own.
\<close>

definition lookup2 :: "catalog \<Rightarrow> string \<Rightarrow> string \<Rightarrow> schema_tables option" where
  "lookup2 cat c s = (case cat c of None \<Rightarrow> None | Some m \<Rightarrow> m s)"

definition lookup3 :: "catalog \<Rightarrow> string \<Rightarrow> string \<Rightarrow> string \<Rightarrow> table_columns option" where
  "lookup3 cat c s t = (case lookup2 cat c s of None \<Rightarrow> None | Some m \<Rightarrow> m t)"

definition lookup4 ::
  "catalog \<Rightarrow> string \<Rightarrow> string \<Rightarrow> string \<Rightarrow> string \<Rightarrow> DimensionType option" where
  "lookup4 cat c s t col = (case lookup3 cat c s t of None \<Rightarrow> None | Some m \<Rightarrow> m col)"

text \<open>A row is requested when its three names are those of some entry of the requests.\<close>

definition requested :: "CatalogRequest list \<Rightarrow> CatalogRow \<Rightarrow> bool" where
  "requested requests row \<longleftrightarrow>
     (\<exists>r \<in> set requests.
        (database r, schema r, table r) = (table_catalog row, table_schema row, table_name row))"

text \<open>The libraries, with the rows that are not requested removed from every query result.\<close>

definition only_requested_rows :: "CatalogRequest list \<Rightarrow> CatalogRow libs \<Rightarrow> CatalogRow libs" where
  "only_requested_rows requests L =
     L\<lparr>pool_query := \<lambda>pool sql.
          (case pool_query L pool sql of
             Inl m \<Rightarrow> Inl m
           | Inr results \<Rightarrow>
               Inr (results\<lparr>res_rows := filter (requested requests) (res_rows results)\<rparr>))\<rparr>"

subsection \<open>The constructor of PostgresWarehouseClient\<close>

text \<open>
  \<open>encodeURIComponent\<close> is a function of the language, not of this program: the constructor
  takes it as the parameter \<open>enc\<close>. It returns the encoded string or throws (\<open>URIError\<close>,
  for a string with a lone surrogate). The constructor first derives the ssl option, then
  evaluates the four encodings in the order of the object literal; the first error thrown
  ends it. A condition on a string is false for \<open>undefined\<close> and for the empty string.
\<close>

definition PostgresWarehouseClient ::
  "(string \<Rightarrow> error + string) \<Rightarrow> FullPostgresCredentials \<Rightarrow> error + PostgresClient" where
  "PostgresWarehouseClient enc credentials =
     (case (case sslmode credentials of
              None \<Rightarrow> Inr None
            | Some mode \<Rightarrow>
                if mode = [] then Inr None
                else (case getSSLConfigFromMode mode of Inl e \<Rightarrow> Inl e | Inr v \<Rightarrow> Inr (Some v)))
      of
        Inl e \<Rightarrow> Inl e
      | Inr ssl \<Rightarrow>
          (case enc (host credentials) of
             Inl e \<Rightarrow> Inl e
           | Inr encoded_host \<Rightarrow>
          (case enc (dbname credentials) of
             Inl e \<Rightarrow> Inl e
           | Inr encoded_database \<Rightarrow>
          (case enc (user credentials) of
             Inl e \<Rightarrow> Inl e
           | Inr encoded_user \<Rightarrow>
          (case enc (password credentials) of
             Inl e \<Rightarrow> Inl e
           | Inr encoded_password \<Rightarrow>
               Inr \<lparr>client_config =
                      \<lparr>cfg_host = Some encoded_host,
                       cfg_port = Some (port credentials),
                       cfg_database = Some encoded_database,
                       cfg_user = Some encoded_user,
                       cfg_password = Some encoded_password,
                       cfg_ssl = ssl\<rparr>,
                    client_sshTunnel = sshTunnel credentials\<rparr>)))))"

text \<open>
  What \<open>encodeURIComponent\<close> returns for a well-formed string given by its UTF-8 bytes: the
  letters, the digits and \<open>- _ . ! ~ * ' ( )\<close> are kept, every other byte becomes \<open>%XX\<close>.
  A string with a lone surrogate, for which \<open>encodeURIComponent\<close> throws, has no UTF-8 form;
  that case is covered by the parameter \<open>enc\<close> alone. \<open>encode_utf8\<close> is the instance of \<open>enc\<close>
  in the examples.
\<close>

definition uri_unreserved :: "char \<Rightarrow> bool" where
  "uri_unreserved c \<longleftrightarrow>
     c \<in> set (''ABCDEFGHIJKLMNOPQRSTUVWXYZabcdefghijklmnopqrstuvwxyz0123456789-_.!~*()''
              @ [squote])"

definition hex_digit :: "nat \<Rightarrow> char" where
  "hex_digit n = ''0123456789ABCDEF'' ! (n mod 16)"

definition percent_encode :: "char \<Rightarrow> string" where
  "percent_encode c =
     (if uri_unreserved c then [c]
      else [CHR ''%'', hex_digit (of_char c div 16), hex_digit (of_char c mod 16)])"

definition encodeURIComponent_utf8 :: "string \<Rightarrow> string" where
  "encodeURIComponent_utf8 s = concat (map percent_encode s)"

definition encode_utf8 :: "string \<Rightarrow> error + string" where
  "encode_utf8 s = Inr (encodeURIComponent_utf8 s)"

text \<open>An instance of \<open>enc\<close> that throws on every string.\<close>

definition encode_throws :: "string \<Rightarrow> error + string" where
  "encode_throws s = Inl (URIError ''URI malformed'')"

section \<open>Example inputs\<close>

definition example_tunnel :: SSHTunnelConfigSecrets where
  "example_tunnel =
     \<lparr>tunnel_username = ''deploy'', tunnel_privateKey = ''key'', tunnel_port = 22,
      tunnel_host = ''bastion''\<rparr>"

definition example_config :: PoolConfig where
  "example_config =
     \<lparr>cfg_host = Some ''db.internal'', cfg_port = Some 5432, cfg_database = Some ''warehouse'',
      cfg_user = Some ''reader'', cfg_password = Some ''secret'', cfg_ssl = None\<rparr>"

definition example_client :: PostgresClient where
  "example_client = \<lparr>client_config = example_config, client_sshTunnel = None\<rparr>"

definition example_tunnel_client :: PostgresClient where
  "example_tunnel_client =
     \<lparr>client_config = example_config, client_sshTunnel = Some example_tunnel\<rparr>"

definition example_credentials :: FullPostgresCredentials where
  "example_credentials =
     \<lparr>host = ''db.internal'', port = 5432, dbname = ''ware house'', user = ''reader'',
      password = ''p@ss/word'', sslmode = None, sshTunnel = Some example_tunnel\<rparr>"

definition requests_with_quote :: "CatalogRequest list" where
  "requests_with_quote =
     [\<lparr>database = ''warehouse'', schema = ''public'', table = ''orders''\<rparr>,
      \<lparr>database = ''warehouse'', schema = ''crm'', table = ''o'' @ [squote] @ ''brien''\<rparr>,
      \<lparr>database = ''warehouse'', schema = ''public'', table = ''orders''\<rparr>]"

definition example_requests :: "CatalogRequest list" where
  "example_requests = [\<lparr>database = ''warehouse'', schema = ''public'', table = ''orders''\<rparr>]"

definition row_id_integer :: CatalogRow where
  "row_id_integer =
     \<lparr>table_catalog = ''warehouse'', table_schema = ''public'', table_name = ''orders'',
      column_name = ''id'', data_type = ''integer''\<rparr>"

definition row_proto_integer :: CatalogRow where
  "row_proto_integer =
     \<lparr>table_catalog = ''warehouse'', table_schema = ''public'', table_name = ''orders'',
      column_name = ''__proto__'', data_type = ''integer''\<rparr>"

definition row_paid_boolean :: CatalogRow where
  "row_paid_boolean =
     \<lparr>table_catalog = ''warehouse'', table_schema = ''public'', table_name = ''orders'',
      column_name = ''paid'', data_type = ''boolean''\<rparr>"

definition row_customers :: CatalogRow where
  "row_customers =
     \<lparr>table_catalog = ''warehouse'', table_schema = ''public'', table_name = ''customers'',
      column_name = ''id'', data_type = ''integer''\<rparr>"

definition example_fields :: "FieldDef list" where
  "example_fields =
     [\<lparr>name = ''id'', dataTypeID = 23\<rparr>, \<lparr>name = ''created'', dataTypeID = 1114\<rparr>,
      \<lparr>name = ''id'', dataTypeID = 25\<rparr>]"

text \<open>Libraries whose calls all succeed, every query answering with the given rows.\<close>

definition example_libs :: "'row list \<Rightarrow> 'row libs" where
  "example_libs rs =
     \<lparr>ssh_connect = (\<lambda>sshConfig. None),
      ssh_addTunnel = (\<lambda>sshConfig remoteAddr remotePort. Inr 40000),
      new_Pool = (\<lambda>config. None),
      pool_query = (\<lambda>pool sql. Inr \<lparr>res_fields = example_fields, res_rows = rs\<rparr>),
      pg_types = pg_builtins\<rparr>"

text \<open>Libraries whose SSH connection is refused.\<close>

definition refusing_libs :: "CatalogRow libs" where
  "refusing_libs = (example_libs [])\<lparr>ssh_connect := (\<lambda>sshConfig. Some ''ECONNREFUSED'')\<rparr>"

section \<open>Properties of the type tables\<close>

text \<open>
  C1: for every input string \<open>mapFieldType\<close> returns one of the five dimension types, and for
  every input number \<open>convertDataTypeIdToDimensionType\<close> does the same (both are functions:
  total and deterministic); an input that is not a case label of the switch yields
  \<open>STRING\<close>.
\<close>

theorem type_mapping_total_default:
  "mapFieldType t \<in> {NUMBER, DATE, TIMESTAMP, BOOLEAN, STRING}
   \<and> convertDataTypeIdToDimensionType b n \<in> {NUMBER, DATE, TIMESTAMP, BOOLEAN, STRING}
   \<and> (t \<notin> set mapFieldType_cases \<longrightarrow> mapFieldType t = STRING)
   \<and> (n \<notin> set (convertDataTypeId_cases b) \<longrightarrow> convertDataTypeIdToDimensionType b n = STRING)"
proof -
  have a: "mapFieldType t \<in> {NUMBER, DATE, TIMESTAMP, BOOLEAN, STRING}"
    by (cases "mapFieldType t") simp_all
  have b: "convertDataTypeIdToDimensionType b n \<in> {NUMBER, DATE, TIMESTAMP, BOOLEAN, STRING}"
    by (cases "convertDataTypeIdToDimensionType b n") simp_all
  have c: "t \<notin> set mapFieldType_cases \<longrightarrow> mapFieldType t = STRING"
    unfolding mapFieldType_cases_def mapFieldType_def by simp
  have d: "n \<notin> set (convertDataTypeId_cases b) \<longrightarrow> convertDataTypeIdToDimensionType b n = STRING"
    unfolding convertDataTypeId_cases_def convertDataTypeIdToDimensionType_def by simp
  from a b c d show ?thesis by blast
qed

theorem type_mapping_total_default_witness:
  "''jsonb'' \<notin> set mapFieldType_cases \<and> mapFieldType ''jsonb'' = STRING
   \<and> 25 \<notin> set (convertDataTypeId_cases pg_builtins)
   \<and> convertDataTypeIdToDimensionType pg_builtins 25 = STRING
   \<and> mapFieldType ''int8'' = NUMBER
   \<and> convertDataTypeIdToDimensionType pg_builtins 1184 = TIMESTAMP"
proof -
  have h1: "''jsonb'' \<notin> set mapFieldType_cases"
    by (simp add: mapFieldType_cases_def number_type_names_def date_type_names_def
        timestamp_type_names_def boolean_type_names_def)
  have h2: "25 \<notin> set (convertDataTypeId_cases pg_builtins)"
    by (simp add: convertDataTypeId_cases_def pg_builtins_def)
  have h3: "mapFieldType ''int8'' = NUMBER"
    by (simp add: mapFieldType_def number_type_names_def)
  have h4: "convertDataTypeIdToDimensionType pg_builtins 1184 = TIMESTAMP"
    by (simp add: convertDataTypeIdToDimensionType_def pg_builtins_def)
  have h5: "''jsonb'' \<notin> set mapFieldType_cases \<longrightarrow> mapFieldType ''jsonb'' = STRING"
    using type_mapping_total_default [of "''jsonb''" pg_builtins 25] by (elim conjE)
  have h6: "25 \<notin> set (convertDataTypeId_cases pg_builtins)
            \<longrightarrow> convertDataTypeIdToDimensionType pg_builtins 25 = STRING"
    using type_mapping_total_default [of "''jsonb''" pg_builtins 25] by (elim conjE)
  from h1 h5 have h7: "mapFieldType ''jsonb'' = STRING" by (rule rev_mp)
  from h2 h6 have h8: "convertDataTypeIdToDimensionType pg_builtins 25 = STRING" by (rule rev_mp)
  from h1 h2 h3 h4 h7 h8 show ?thesis by (intro conjI)
qed

text \<open>
  C5: \<open>getSSLConfigFromMode\<close> returns a value exactly on the seven mode strings: \<open>false\<close>
  for \<open>disable\<close>, an object whose \<open>rejectUnauthorized\<close> is \<open>false\<close> for \<open>no-verify\<close>,
  \<open>true\<close> for the other five; for every other string it throws an error.
\<close>

theorem getSSLConfigFromMode_table:
  "(getSSLConfigFromMode mode = Inr (SSLBool False) \<longleftrightarrow> mode = ''disable'')
   \<and> (getSSLConfigFromMode mode = Inr (SSLOptions False) \<longleftrightarrow> mode = ''no-verify'')
   \<and> (getSSLConfigFromMode mode = Inr (SSLBool True)
        \<longleftrightarrow> mode \<in> {''allow'', ''prefer'', ''require'', ''verify-ca'', ''verify-full''})
   \<and> ((\<exists>v. getSSLConfigFromMode mode = Inr v) \<longleftrightarrow> mode \<in> set ssl_modes)
   \<and> (mode \<notin> set ssl_modes \<longrightarrow>
        getSSLConfigFromMode mode
          = Inl (Error (''SSL mode '' @ [dquote] @ mode @ [dquote] @ '' not understood.'')))"
  unfolding getSSLConfigFromMode_def ssl_modes_def by simp

theorem getSSLConfigFromMode_table_witness:
  "''verify'' \<notin> set ssl_modes
   \<and> getSSLConfigFromMode ''verify''
       = Inl (Error (''SSL mode '' @ [dquote] @ ''verify'' @ [dquote] @ '' not understood.''))"
proof -
  have h: "''verify'' \<notin> set ssl_modes"
    by (simp add: ssl_modes_def)
  have "''verify'' \<notin> set ssl_modes \<longrightarrow>
        getSSLConfigFromMode ''verify''
          = Inl (Error (''SSL mode '' @ [dquote] @ ''verify'' @ [dquote] @ '' not understood.''))"
    using getSSLConfigFromMode_table [of "''verify''"] by (elim conjE)
  with h show ?thesis by (intro conjI) (assumption, erule (1) mp)
qed

section \<open>Helper facts\<close>

text \<open>
  The outcomes of \<open>connect\<close> and \<open>runQuery\<close>, the two reductions of \<open>runQuery\<close> and
  \<open>getCatalog\<close> in closed form, and the request sets as lists of first occurrences.
\<close>

lemma connect_error_kind:
  "connect L this = (tr, Inl e) \<Longrightarrow> \<exists>m. e = WarehouseConnectionError m"
  unfolding connect_def io_catch_def io_throw_def
  by (auto split: prod.splits sum.splits)

lemma runQuery_connect_fails:
  "connect L this = (tr, Inl e) \<Longrightarrow>
   runQuery L this sql = (tr, Inl (WarehouseQueryError (message e)))"
  unfolding runQuery_def io_catch_def io_bind_def io_throw_def
  by simp

lemma runQuery_query_fails:
  "connect L this = (tr, Inr pool) \<Longrightarrow> pool_query L pool sql = Inl m \<Longrightarrow>
   runQuery L this sql = (tr @ [PoolQuery pool sql], Inl (WarehouseQueryError m))"
  unfolding runQuery_def io_catch_def io_bind_def io_throw_def call_pool_query_def
  by simp

lemma runQuery_succeeds:
  "connect L this = (tr, Inr pool) \<Longrightarrow> pool_query L pool sql = Inr results \<Longrightarrow>
   runQuery L this sql =
     (tr @ [PoolQuery pool sql],
      Inr \<lparr>rq_fields = fields_of (pg_types L) (res_fields results), rq_rows = res_rows results\<rparr>)"
  unfolding runQuery_def io_catch_def io_bind_def io_throw_def call_pool_query_def io_return_def
  by simp

lemma connect_no_query: "queries_of (fst (connect L this)) = []"
  unfolding connect_def io_catch_def io_throw_def io_bind_def call_ssh_connect_def
    call_addTunnel_def call_new_Pool_def Let_def
  by (auto split: prod.splits sum.splits option.splits)

lemma queries_of_append: "queries_of (xs @ ys) = queries_of xs @ queries_of ys"
  by (induction xs rule: queries_of.induct) simp_all

lemma find_app:
  "find P (xs @ ys) = (case find P xs of None \<Rightarrow> find P ys | Some x \<Rightarrow> Some x)"
  by (induction xs) simp_all

lemma find_SomeD: "find P xs = Some x \<Longrightarrow> x \<in> set xs \<and> P x"
  by (induction xs) (auto split: if_splits)

lemma fields_of_foldl:
  "foldl (\<lambda>acc f. acc(name f \<mapsto> \<lparr>field_type = convertDataTypeIdToDimensionType b (dataTypeID f)\<rparr>)) acc fs n
   = (case find (\<lambda>f. name f = n) (rev fs) of
        None \<Rightarrow> acc n
      | Some f \<Rightarrow> Some \<lparr>field_type = convertDataTypeIdToDimensionType b (dataTypeID f)\<rparr>)"
  by (induction fs arbitrary: acc) (auto simp: find_app split: option.splits)

lemma fields_of_last:
  "fields_of b fs n
   = (case find (\<lambda>f. name f = n) (rev fs) of
        None \<Rightarrow> None
      | Some f \<Rightarrow> Some \<lparr>field_type = convertDataTypeIdToDimensionType b (dataTypeID f)\<rparr>)"
  unfolding fields_of_def by (simp add: fields_of_foldl)

lemma Set_add_foldl: "foldl Set_add [] xs = rev (remdups (rev xs))"
proof (induction xs rule: rev_induct)
  case Nil
  show ?case by simp
next
  case (snoc x xs)
  then show ?case by (simp add: Set_add_def)
qed

lemma find_request_iff:
  "find (\<lambda>r. database r = table_catalog row \<and> schema r = table_schema row
              \<and> table r = table_name row) requests = None \<longleftrightarrow> \<not> requested requests row"
  by (auto simp: find_None_iff requested_def)

lemma catalog_step_unrequested:
  "\<not> requested requests row \<Longrightarrow> catalog_step requests acc row = acc"
  using find_request_iff [of row requests] by (simp add: catalog_step_def)

lemma catalog_step_requested:
  assumes "requested requests row"
    and "table_catalog row \<notin> set Object_prototype_names"
    and "table_schema row \<notin> set Object_prototype_names"
    and "table_name row \<notin> set Object_prototype_names"
  shows "catalog_step requests (Catalog m) row =
     (let schemas_obj = or_empty (m (table_catalog row));
          tables_obj = or_empty (schemas_obj (table_schema row));
          columns_obj = or_empty (tables_obj (table_name row))
      in Catalog (m(table_catalog row \<mapsto>
           schemas_obj(table_schema row \<mapsto>
             tables_obj(table_name row \<mapsto>
               set_column columns_obj (column_name row) (mapFieldType (data_type row)))))))"
  using find_request_iff [of row requests] assms
  by (auto simp: catalog_step_def split: option.splits)

lemma catalog_step_escapes:
  assumes "requested requests row"
    and "table_catalog row \<in> set Object_prototype_names
         \<or> table_schema row \<in> set Object_prototype_names
         \<or> table_name row \<in> set Object_prototype_names"
  shows "catalog_step requests acc row = Escaped"
  using find_request_iff [of row requests] assms
  by (cases acc) (auto simp: catalog_step_def split: option.splits)

lemma or_empty_Some: "or_empty (Some m) = m"
  by (simp add: or_empty_def)

lemma lookup2_alt: "lookup2 cat c s = or_empty (cat c) s"
  by (simp add: lookup2_def or_empty_def split: option.splits)

lemma lookup3_alt: "lookup3 cat c s t = or_empty (lookup2 cat c s) t"
  by (simp add: lookup3_def or_empty_def split: option.splits)

lemma lookup4_alt: "lookup4 cat c s t col = or_empty (lookup3 cat c s t) col"
  by (simp add: lookup4_def or_empty_def split: option.splits)

text \<open>
  A requested row whose catalog, schema and table are not named like a member of
  \<open>Object.prototype\<close>: the step keeps every other entry, and stores the row's type under the
  row's four names unless the column is named \<open>__proto__\<close>.
\<close>

lemma catalog_step_entry:
  assumes "requested requests row"
    and "table_catalog row \<notin> set Object_prototype_names"
    and "table_schema row \<notin> set Object_prototype_names"
    and "table_name row \<notin> set Object_prototype_names"
  shows "\<exists>m'. catalog_step requests (Catalog m) row = Catalog m'
           \<and> (\<forall>c s t col. lookup4 m' c s t col =
                 (if c = table_catalog row \<and> s = table_schema row \<and> t = table_name row
                     \<and> col = column_name row \<and> col \<noteq> ''__proto__''
                  then Some (mapFieldType (data_type row))
                  else lookup4 m c s t col))"
  by (simp add: catalog_step_requested [OF assms] Let_def lookup4_alt lookup3_alt lookup2_alt
      or_empty_Some set_column_def)

lemma catalog_foldl_filter:
  "foldl (catalog_step requests) acc (filter (requested requests) rs)
   = foldl (catalog_step requests) acc rs"
  by (induction rs arbitrary: acc) (simp_all add: catalog_step_unrequested)

lemma request_sets_foldl:
  "foldl (\<lambda>acc r. \<lparr>databases = Set_add (databases acc) (quoted (database r)),
                     schemas = Set_add (schemas acc) (quoted (schema r)),
                     tables = Set_add (tables acc) (quoted (table r))\<rparr>) acc rs
   = \<lparr>databases = foldl Set_add (databases acc) (map (\<lambda>r. quoted (database r)) rs),
      schemas = foldl Set_add (schemas acc) (map (\<lambda>r. quoted (schema r)) rs),
      tables = foldl Set_add (tables acc) (map (\<lambda>r. quoted (table r)) rs)\<rparr>"
  by (induction rs arbitrary: acc) simp_all

lemma remdups_map_quoted:
  "remdups (map (\<lambda>r. quoted (f r)) xs) = map quoted (remdups (map f xs))"
  by (induction xs) (auto simp: quoted_def)

lemma request_sets_eq:
  "request_sets requests =
     \<lparr>databases = map quoted (rev (remdups (rev (map database requests)))),
      schemas = map quoted (rev (remdups (rev (map schema requests)))),
      tables = map quoted (rev (remdups (rev (map table requests))))\<rparr>"
  unfolding request_sets_def request_sets_foldl
  by (simp add: Set_add_foldl rev_map remdups_map_quoted)

lemma calls_only_requested_rows:
  "call_ssh_connect (only_requested_rows requests L) = call_ssh_connect L"
  "call_addTunnel (only_requested_rows requests L) = call_addTunnel L"
  "call_new_Pool (only_requested_rows requests L) = call_new_Pool L"
  by (simp_all add: fun_eq_iff call_ssh_connect_def call_addTunnel_def call_new_Pool_def
      only_requested_rows_def)

lemma connect_only_requested_rows:
  "connect (only_requested_rows requests L) this = connect L this"
  unfolding connect_def calls_only_requested_rows ..

lemma request_sets_empty_iff:
  "(databases (request_sets requests) = [] \<longleftrightarrow> requests = [])
   \<and> (schemas (request_sets requests) = [] \<longleftrightarrow> requests = [])
   \<and> (tables (request_sets requests) = [] \<longleftrightarrow> requests = [])"
  by (simp add: request_sets_eq)

lemma getCatalog_nonempty:
  "requests \<noteq> [] \<Longrightarrow>
   getCatalog L this requests =
     io_bind (runQuery L this (catalog_query (request_sets requests)))
       (\<lambda>result. io_return (catalog_of requests (rq_rows result)))"
  using request_sets_empty_iff [of requests] by (simp add: getCatalog_def Let_def)

lemma getCatalog_succeeds:
  assumes "requests \<noteq> []"
    and "connect L this = (tr, Inr pool)"
    and "pool_query L pool (catalog_query (request_sets requests)) = Inr results"
  shows "getCatalog L this requests =
           (tr @ [PoolQuery pool (catalog_query (request_sets requests))],
            Inr (catalog_of requests (res_rows results)))"
  using assms
  by (simp add: getCatalog_nonempty runQuery_succeeds io_bind_def io_return_def)

lemma runQuery_cases:
  obtains (connect_fails) tr e where "connect L this = (tr, Inl e)"
      "runQuery L this sql = (tr, Inl (WarehouseQueryError (message e)))"
  | (query_fails) tr pool m where "connect L this = (tr, Inr pool)"
      "pool_query L pool sql = Inl m"
      "runQuery L this sql = (tr @ [PoolQuery pool sql], Inl (WarehouseQueryError m))"
  | (succeeds) tr pool results where "connect L this = (tr, Inr pool)"
      "pool_query L pool sql = Inr results"
      "runQuery L this sql =
         (tr @ [PoolQuery pool sql],
          Inr \<lparr>rq_fields = fields_of (pg_types L) (res_fields results),
               rq_rows = res_rows results\<rparr>)"
proof -
  obtain tr r where c: "connect L this = (tr, r)" by (cases "connect L this")
  show thesis
  proof (cases r)
    case (Inl e)
    with c connect_fails runQuery_connect_fails show thesis by metis
  next
    case (Inr pool)
    note pool = this
    show thesis
    proof (cases "pool_query L pool sql")
      case (Inl m)
      with c pool query_fails runQuery_query_fails show thesis by metis
    next
      case (Inr results)
      with c pool succeeds runQuery_succeeds show thesis by metis
    qed
  qed
qed

lemma runQuery_error_kind:
  "snd (runQuery L this sql) = Inl e \<Longrightarrow> \<exists>m. e = WarehouseQueryError m"
  by (cases rule: runQuery_cases [of L this sql]) auto

lemma runQuery_queries:
  "queries_of (fst (runQuery L this sql))
   = (case snd (connect L this) of Inl e \<Rightarrow> [] | Inr pool \<Rightarrow> [sql])"
  using connect_no_query [of L this]
  by (cases rule: runQuery_cases [of L this sql]) (simp_all add: queries_of_append)

lemma test_eq:
  "test L this =
     (fst (runQuery L this ''SELECT 1''),
      case snd (runQuery L this ''SELECT 1'') of Inl e \<Rightarrow> Inl e | Inr result \<Rightarrow> Inr ())"
  by (cases "runQuery L this ''SELECT 1''")
    (simp add: test_def io_bind_def io_return_def split: sum.splits)

lemma dom_fields_of: "dom (fields_of b fs) = name ` set fs"
proof (rule set_eqI)
  fix n
  show "n \<in> dom (fields_of b fs) \<longleftrightarrow> n \<in> name ` set fs"
  proof (cases "find (\<lambda>f. name f = n) (rev fs)")
    case None
    then have "fields_of b fs n = None"
      by (simp add: fields_of_last)
    moreover from None have "n \<notin> name ` set fs"
      by (auto simp: find_None_iff)
    ultimately show ?thesis
      by (simp add: dom_def)
  next
    case (Some f)
    from find_SomeD [OF Some] Some show ?thesis
      by (auto simp: fields_of_last dom_def)
  qed
qed

lemma fields_of_entry:
  assumes "n \<in> name ` set fs"
  shows "\<exists>f \<in> set fs. name f = n
           \<and> fields_of b fs n
               = Some \<lparr>field_type = convertDataTypeIdToDimensionType b (dataTypeID f)\<rparr>"
proof (cases "find (\<lambda>f. name f = n) (rev fs)")
  case None
  with assms show ?thesis by (auto simp: find_None_iff)
next
  case (Some f)
  from find_SomeD [OF Some] Some show ?thesis
    by (auto simp: fields_of_last)
qed

lemma fields_of_last_named:
  assumes "fs = fs1 @ f # fs2" and "\<not> (\<exists>g \<in> set fs2. name g = name f)"
  shows "fields_of b fs (name f)
         = Some \<lparr>field_type = convertDataTypeIdToDimensionType b (dataTypeID f)\<rparr>"
proof -
  from assms(2) have "find (\<lambda>g. name g = name f) (rev fs2) = None"
    by (auto simp: find_None_iff)
  then have "find (\<lambda>g. name g = name f) (rev fs) = Some f"
    by (simp add: assms(1) find_app)
  then show ?thesis by (simp add: fields_of_last)
qed

lemma remdups_snoc: "remdups (ys @ [x]) = filter (\<lambda>y. y \<noteq> x) (remdups ys) @ [x]"
  by (induction ys) auto

lemma first_occurrences_remdups: "first_occurrences xs = rev (remdups (rev xs))"
  by (induction xs) (simp_all add: remdups_snoc rev_filter)

lemma Set_add_first_occurrences: "foldl Set_add [] xs = first_occurrences xs"
  by (simp add: Set_add_foldl first_occurrences_remdups)

lemma distinct_first_occurrences: "distinct (first_occurrences xs)"
  by (simp add: first_occurrences_remdups)

lemma set_first_occurrences: "set (first_occurrences xs) = set xs"
  by (simp add: first_occurrences_remdups)

lemma request_sets_first_occurrences:
  "request_sets requests =
     \<lparr>databases = map quoted (first_occurrences (map database requests)),
      schemas = map quoted (first_occurrences (map schema requests)),
      tables = map quoted (first_occurrences (map table requests))\<rparr>"
  by (simp add: request_sets_eq first_occurrences_remdups)

lemma getCatalog_queries:
  "queries_of (fst (getCatalog L this requests))
   = (if requests = [] then []
      else case snd (connect L this) of
             Inl e \<Rightarrow> [] | Inr pool \<Rightarrow> [catalog_query (request_sets requests)])"
proof (cases "requests = []")
  case True
  then show ?thesis
    by (simp add: getCatalog_def request_sets_def io_return_def)
next
  case False
  have "fst (getCatalog L this requests)
        = fst (runQuery L this (catalog_query (request_sets requests)))"
    by (cases "runQuery L this (catalog_query (request_sets requests))")
      (simp add: getCatalog_nonempty [OF False] io_bind_def io_return_def split: sum.splits)
  with False show ?thesis
    by (simp add: runQuery_queries)
qed

section \<open>Properties of getCatalog\<close>

text \<open>
  C2: a row whose (table_catalog, table_schema, table_name) is not the (database, schema,
  table) of any entry of the requests contributes nothing to the object \<open>getCatalog\<close> returns:
  the reduction step leaves the accumulator as it is, the reduction of a list of rows is the
  reduction of the list without that row, and \<open>getCatalog\<close> returns the same whether the
  query result holds the rows that are not requested or not.
\<close>

theorem getCatalog_unrequested_row_ignored:
  "(\<not> (\<exists>r \<in> set requests.
        (database r, schema r, table r) = (table_catalog row, table_schema row, table_name row))
      \<longrightarrow> catalog_step requests acc row = acc
          \<and> catalog_of requests (rs1 @ row # rs2) = catalog_of requests (rs1 @ rs2))
   \<and> getCatalog (only_requested_rows requests L) this requests = getCatalog L this requests"
proof -
  have step: "catalog_step requests acc' row = acc'"
    if "\<not> (\<exists>r \<in> set requests.
          (database r, schema r, table r) = (table_catalog row, table_schema row, table_name row))"
    for acc'
    using that by (intro catalog_step_unrequested) (simp add: requested_def)
  have run: "getCatalog (only_requested_rows requests L) this requests = getCatalog L this requests"
  proof (cases "requests = []")
    case True
    then show ?thesis by (simp add: getCatalog_def request_sets_def)
  next
    case False
    obtain tr r where c: "connect L this = (tr, r)" by (cases "connect L this")
    show ?thesis
    proof (cases r)
      case (Inl e)
      with c False show ?thesis
        by (simp add: getCatalog_nonempty runQuery_connect_fails connect_only_requested_rows)
    next
      case (Inr pool)
      note pool = this
      let ?q = "catalog_query (request_sets requests)"
      show ?thesis
      proof (cases "pool_query L pool ?q")
        case (Inl m)
        then have "pool_query (only_requested_rows requests L) pool ?q = Inl m"
          by (simp add: only_requested_rows_def)
        with Inl c pool False show ?thesis
          by (simp add: getCatalog_nonempty runQuery_query_fails connect_only_requested_rows)
      next
        case (Inr results)
        then have "pool_query (only_requested_rows requests L) pool ?q
                   = Inr (results\<lparr>res_rows := filter (requested requests) (res_rows results)\<rparr>)"
          by (simp add: only_requested_rows_def)
        with Inr c pool False show ?thesis
          by (simp add: getCatalog_succeeds connect_only_requested_rows catalog_of_def
              catalog_foldl_filter)
      qed
    qed
  qed
  from step run show ?thesis by (simp add: catalog_of_def)
qed

theorem getCatalog_unrequested_row_ignored_witness:
  "\<not> (\<exists>r \<in> set example_requests.
      (database r, schema r, table r)
        = (table_catalog row_customers, table_schema row_customers, table_name row_customers))
   \<and> catalog_of example_requests ([row_id_integer] @ row_customers # [row_paid_boolean])
       = catalog_of example_requests ([row_id_integer] @ [row_paid_boolean])
   \<and> catalog_of example_requests [row_id_integer, row_customers, row_paid_boolean]
       = Catalog [''warehouse'' \<mapsto> [''public'' \<mapsto>
           [''orders'' \<mapsto> [''id'' \<mapsto> NUMBER, ''paid'' \<mapsto> BOOLEAN]]]]"
proof -
  have h: "\<not> (\<exists>r \<in> set example_requests.
      (database r, schema r, table r)
        = (table_catalog row_customers, table_schema row_customers, table_name row_customers))"
    by (simp add: example_requests_def row_customers_def)
  have e: "catalog_of example_requests ([row_id_integer] @ row_customers # [row_paid_boolean])
       = catalog_of example_requests ([row_id_integer] @ [row_paid_boolean])"
    using getCatalog_unrequested_row_ignored
      [of example_requests row_customers "Catalog Map.empty" "[row_id_integer]"
        "[row_paid_boolean]"] h
    by simp
  have "catalog_of example_requests [row_id_integer, row_paid_boolean]
       = Catalog [''warehouse'' \<mapsto> [''public'' \<mapsto>
           [''orders'' \<mapsto> [''id'' \<mapsto> NUMBER, ''paid'' \<mapsto> BOOLEAN]]]]"
    by (simp add: catalog_of_def catalog_step_def example_requests_def row_id_integer_def
        row_paid_boolean_def or_empty_def set_column_def Object_prototype_names_def
        mapFieldType_def number_type_names_def date_type_names_def timestamp_type_names_def
        boolean_type_names_def)
  with h e show ?thesis by simp
qed

text \<open>
  C4: \<open>getCatalog\<close> returns the empty object, and calls no library at all (so it runs no
  query), whenever one of the three sets of requested databases, schemas and tables is empty;
  this is the case exactly when the list of requests is empty.
\<close>

theorem getCatalog_empty_requests:
  "(databases (request_sets requests) = [] \<or> schemas (request_sets requests) = []
      \<or> tables (request_sets requests) = []
    \<longrightarrow> getCatalog L this requests = ([], Inr (Catalog Map.empty)))
   \<and> getCatalog L this [] = ([], Inr (Catalog Map.empty))
   \<and> (databases (request_sets requests) = [] \<or> schemas (request_sets requests) = []
        \<or> tables (request_sets requests) = [] \<longleftrightarrow> requests = [])"
proof -
  have a: "getCatalog L this requests = ([], Inr (Catalog Map.empty))"
    if "databases (request_sets requests) = [] \<or> schemas (request_sets requests) = []
        \<or> tables (request_sets requests) = []"
    using that by (auto simp: getCatalog_def Let_def io_return_def)
  have b: "getCatalog L this [] = ([], Inr (Catalog Map.empty))"
    by (simp add: getCatalog_def request_sets_def io_return_def)
  from a b request_sets_empty_iff [of requests] show ?thesis by blast
qed

theorem getCatalog_empty_requests_witness:
  "databases (request_sets []) = []
   \<and> getCatalog (example_libs [row_id_integer]) example_client [] = ([], Inr (Catalog Map.empty))
   \<and> queries_of (fst (getCatalog (example_libs [row_id_integer]) example_client [])) = []"
proof -
  have h: "databases (request_sets []) = []"
    by (simp add: request_sets_def)
  then have "getCatalog (example_libs [row_id_integer]) example_client [] = ([], Inr (Catalog Map.empty))"
    using getCatalog_empty_requests [of "[]" "example_libs [row_id_integer]" example_client]
    by simp
  with h show ?thesis by simp
qed

text \<open>
  C3 fails on the code for a column named \<open>__proto__\<close>. The row is requested, and the step
  creates the objects for its catalog, schema and table, but the assignment
  \<open>acc[table_catalog][table_schema][table_name]['__proto__'] = mapFieldType(data_type)\<close>
  reaches the setter every plain object inherits, which ignores a string: no entry is
  stored for the column, while the other column of the table has its entry.
\<close>

theorem getCatalog_drops_proto_column:
  "\<lparr>database = ''warehouse'', schema = ''public'', table = ''orders''\<rparr> \<in> set example_requests
   \<and> (table_catalog row_proto_integer, table_schema row_proto_integer,
       table_name row_proto_integer) = (''warehouse'', ''public'', ''orders'')
   \<and> column_name row_proto_integer = ''__proto__''
   \<and> mapFieldType (data_type row_proto_integer) = NUMBER
   \<and> getCatalog (example_libs [row_id_integer, row_proto_integer]) example_client
         example_requests
       = ([NewPool example_config,
           PoolQuery example_config (catalog_query (request_sets example_requests))],
          Inr (Catalog [''warehouse'' \<mapsto> [''public'' \<mapsto> [''orders'' \<mapsto> [''id'' \<mapsto> NUMBER]]]]))
   \<and> lookup4 [''warehouse'' \<mapsto> [''public'' \<mapsto> [''orders'' \<mapsto> [''id'' \<mapsto> NUMBER]]]]
        ''warehouse'' ''public'' ''orders'' ''__proto__'' = None
   \<and> lookup4 [''warehouse'' \<mapsto> [''public'' \<mapsto> [''orders'' \<mapsto> [''id'' \<mapsto> NUMBER]]]]
        ''warehouse'' ''public'' ''orders'' ''id'' = Some NUMBER"
proof -
  let ?L = "example_libs [row_id_integer, row_proto_integer]"
  let ?cat = "[''warehouse'' \<mapsto> [''public'' \<mapsto> [''orders'' \<mapsto> [''id'' \<mapsto> NUMBER]]]]"
  have req: "example_requests \<noteq> []"
    by (simp add: example_requests_def)
  have con: "connect ?L example_client = ([NewPool example_config], Inr example_config)"
    by (simp add: connect_def example_client_def example_libs_def call_new_Pool_def
        io_catch_def)
  have qry: "pool_query ?L example_config (catalog_query (request_sets example_requests))
             = Inr \<lparr>res_fields = example_fields,
                    res_rows = [row_id_integer, row_proto_integer]\<rparr>"
    by (simp add: example_libs_def)
  have cat: "catalog_of example_requests [row_id_integer, row_proto_integer] = Catalog ?cat"
    by (simp add: catalog_of_def catalog_step_def example_requests_def row_id_integer_def
        row_proto_integer_def or_empty_def set_column_def Object_prototype_names_def
        mapFieldType_def number_type_names_def)
  have run: "getCatalog ?L example_client example_requests
       = ([NewPool example_config,
           PoolQuery example_config (catalog_query (request_sets example_requests))],
          Inr (Catalog ?cat))"
    by (simp add: getCatalog_succeeds [OF req con qry] cat)
  have ty: "mapFieldType (data_type row_proto_integer) = NUMBER"
    by (simp add: row_proto_integer_def mapFieldType_def number_type_names_def)
  have l1: "lookup4 ?cat ''warehouse'' ''public'' ''orders'' ''__proto__'' = None"
    by (simp add: lookup4_def lookup3_def lookup2_def)
  have l2: "lookup4 ?cat ''warehouse'' ''public'' ''orders'' ''id'' = Some NUMBER"
    by (simp add: lookup4_def lookup3_def lookup2_def)
  have names: "\<lparr>database = ''warehouse'', schema = ''public'', table = ''orders''\<rparr>
                 \<in> set example_requests"
    "(table_catalog row_proto_integer, table_schema row_proto_integer,
       table_name row_proto_integer) = (''warehouse'', ''public'', ''orders'')"
    "column_name row_proto_integer = ''__proto__''"
    by (simp_all add: example_requests_def row_proto_integer_def)
  from names ty run l1 l2 show ?thesis by (intro conjI)
qed

section \<open>Properties of connect, runQuery and test\<close>

text \<open>
  C6 fails on the code for a connection failure. \<open>connect\<close> rethrows a failure of the SSH
  tunnel or of the pool as \<open>WarehouseConnectionError\<close>, but its only caller \<open>runQuery\<close> calls
  it inside its own \<open>try\<close>: the connection error is caught a second time and rethrown as
  \<open>WarehouseQueryError\<close> with the same message. No run of \<open>runQuery\<close> ends in a connection
  error; with a refused SSH connection \<open>runQuery\<close> and \<open>test\<close> end in a query error.
\<close>

theorem runQuery_retypes_connection_failure:
  "snd (runQuery L this sql) \<noteq> Inl (WarehouseConnectionError m)
   \<and> connect refusing_libs example_tunnel_client
       = ([SSHConnect \<lparr>ssh_username = ''deploy'', ssh_privateKey = ''key'', ssh_port = 22,
                        ssh_host = ''bastion''\<rparr>],
          Inl (WarehouseConnectionError ''ECONNREFUSED''))
   \<and> runQuery refusing_libs example_tunnel_client ''SELECT 1''
       = ([SSHConnect \<lparr>ssh_username = ''deploy'', ssh_privateKey = ''key'', ssh_port = 22,
                        ssh_host = ''bastion''\<rparr>],
          Inl (WarehouseQueryError ''ECONNREFUSED''))
   \<and> snd (test refusing_libs example_tunnel_client)
       = Inl (WarehouseQueryError ''ECONNREFUSED'')"
proof -
  have a: "snd (runQuery L this sql) \<noteq> Inl (WarehouseConnectionError m)"
    using runQuery_error_kind [of L this sql "WarehouseConnectionError m"] by auto
  have b: "connect refusing_libs example_tunnel_client
       = ([SSHConnect \<lparr>ssh_username = ''deploy'', ssh_privateKey = ''key'', ssh_port = 22,
                        ssh_host = ''bastion''\<rparr>],
          Inl (WarehouseConnectionError ''ECONNREFUSED''))"
    by (simp add: connect_def refusing_libs_def example_libs_def example_tunnel_client_def
        example_tunnel_def call_ssh_connect_def io_bind_def io_catch_def io_throw_def)
  have c: "runQuery refusing_libs example_tunnel_client ''SELECT 1''
       = ([SSHConnect \<lparr>ssh_username = ''deploy'', ssh_privateKey = ''key'', ssh_port = 22,
                        ssh_host = ''bastion''\<rparr>],
          Inl (WarehouseQueryError ''ECONNREFUSED''))"
    by (simp add: runQuery_connect_fails [OF b])
  have d: "snd (test refusing_libs example_tunnel_client)
       = Inl (WarehouseQueryError ''ECONNREFUSED'')"
    by (simp add: test_eq c)
  from a b c d show ?thesis by (intro conjI)
qed

text \<open>
  C7: \<open>test\<close> runs \<open>runQuery\<close> on \<open>SELECT 1\<close> and returns nothing else; it succeeds exactly
  when the connection is made and that query succeeds, and the queries it sends are that one
  query (none when the connection fails). When the connection is made and the query
  succeeds, \<open>runQuery\<close> returns the rows of the query result together with a \<open>fields\<close>
  record whose names are the column names, each mapped to the dimension type of the
  \<open>dataTypeID\<close> of a column of that name; \<open>runQuery\<close> succeeds in no other case.
\<close>

theorem test_runs_select_1:
  "test L this =
     (fst (runQuery L this ''SELECT 1''),
      case snd (runQuery L this ''SELECT 1'') of Inl e \<Rightarrow> Inl e | Inr result \<Rightarrow> Inr ())
   \<and> ((\<exists>u. snd (test L this) = Inr u)
        \<longleftrightarrow> (\<exists>tr pool results. connect L this = (tr, Inr pool)
               \<and> pool_query L pool ''SELECT 1'' = Inr results))
   \<and> queries_of (fst (test L this))
       = (case snd (connect L this) of Inl e \<Rightarrow> [] | Inr pool \<Rightarrow> [''SELECT 1''])
   \<and> (connect L this = (tr, Inr pool) \<and> pool_query L pool sql = Inr results \<longrightarrow>
        runQuery L this sql
          = (tr @ [PoolQuery pool sql],
             Inr \<lparr>rq_fields = fields_of (pg_types L) (res_fields results),
                  rq_rows = res_rows results\<rparr>)
        \<and> dom (fields_of (pg_types L) (res_fields results)) = name ` set (res_fields results)
        \<and> (\<forall>n \<in> name ` set (res_fields results). \<exists>f \<in> set (res_fields results).
              name f = n
              \<and> fields_of (pg_types L) (res_fields results) n
                  = Some \<lparr>field_type
                            = convertDataTypeIdToDimensionType (pg_types L) (dataTypeID f)\<rparr>))
   \<and> ((\<exists>out. snd (runQuery L this sql) = Inr out)
        \<longleftrightarrow> (\<exists>tr pool results. connect L this = (tr, Inr pool)
               \<and> pool_query L pool sql = Inr results))"
proof -
  have ok: "(\<exists>out. snd (runQuery L this q) = Inr out)
        \<longleftrightarrow> (\<exists>tr pool results. connect L this = (tr, Inr pool)
               \<and> pool_query L pool q = Inr results)" for q
    by (cases rule: runQuery_cases [of L this q]) auto
  have t: "(\<exists>u. snd (test L this) = Inr u)
        \<longleftrightarrow> (\<exists>out. snd (runQuery L this ''SELECT 1'') = Inr out)"
    by (simp add: test_eq split: sum.splits)
  have q: "queries_of (fst (test L this))
       = (case snd (connect L this) of Inl e \<Rightarrow> [] | Inr pool \<Rightarrow> [''SELECT 1''])"
    by (simp add: test_eq runQuery_queries)
  have f: "\<forall>n \<in> name ` set fs. \<exists>f \<in> set fs. name f = n
              \<and> fields_of b fs n
                  = Some \<lparr>field_type = convertDataTypeIdToDimensionType b (dataTypeID f)\<rparr>"
    for b fs
    using fields_of_entry by blast
  from t ok [of "''SELECT 1''"] have t': "(\<exists>u. snd (test L this) = Inr u)
        \<longleftrightarrow> (\<exists>tr pool results. connect L this = (tr, Inr pool)
               \<and> pool_query L pool ''SELECT 1'' = Inr results)"
    by simp
  show ?thesis
    apply (intro conjI impI)
          apply (rule test_eq)
         apply (rule t')
        apply (rule q)
       apply (erule conjE, erule (1) runQuery_succeeds)
      apply (rule dom_fields_of)
     apply (rule f)
    apply (rule ok)
    done
qed

theorem test_runs_select_1_witness:
  "connect (example_libs [(1::int)]) example_client
     = ([NewPool example_config], Inr example_config)
   \<and> pool_query (example_libs [(1::int)]) example_config ''SELECT 1''
       = Inr \<lparr>res_fields = example_fields, res_rows = [1]\<rparr>
   \<and> test (example_libs [(1::int)]) example_client
       = ([NewPool example_config, PoolQuery example_config ''SELECT 1''], Inr ())
   \<and> runQuery (example_libs [(1::int)]) example_client ''SELECT 1''
       = ([NewPool example_config] @ [PoolQuery example_config ''SELECT 1''],
          Inr \<lparr>rq_fields = fields_of pg_builtins example_fields, rq_rows = [1]\<rparr>)
   \<and> fields_of pg_builtins example_fields ''created'' = Some \<lparr>field_type = TIMESTAMP\<rparr>"
proof -
  let ?L = "example_libs [(1::int)]"
  have h1: "connect ?L example_client = ([NewPool example_config], Inr example_config)"
    by (simp add: connect_def example_client_def example_libs_def call_new_Pool_def
        io_catch_def)
  have h2: "pool_query ?L example_config ''SELECT 1''
            = Inr \<lparr>res_fields = example_fields, res_rows = [1]\<rparr>"
    by (simp add: example_libs_def)
  have types: "pg_types ?L = pg_builtins"
    by (simp add: example_libs_def)
  from test_runs_select_1
    [of ?L example_client "[NewPool example_config]" example_config "''SELECT 1''"
      "\<lparr>res_fields = example_fields, res_rows = [1]\<rparr>"] h1 h2
  have run: "runQuery ?L example_client ''SELECT 1''
       = ([NewPool example_config] @ [PoolQuery example_config ''SELECT 1''],
          Inr \<lparr>rq_fields = fields_of pg_builtins example_fields, rq_rows = [1]\<rparr>)"
    by (simp add: types)
  from test_runs_select_1 [of ?L example_client] run
  have tst: "test ?L example_client
       = ([NewPool example_config, PoolQuery example_config ''SELECT 1''], Inr ())"
    by simp
  have fld: "fields_of pg_builtins example_fields ''created'' = Some \<lparr>field_type = TIMESTAMP\<rparr>"
    by (simp add: fields_of_def example_fields_def convertDataTypeIdToDimensionType_def
        pg_builtins_def)
  from h1 h2 tst run fld show ?thesis by (intro conjI)
qed

text \<open>
  C10: when \<open>runQuery\<close> succeeds, the rows it returns are the rows of the query result, and
  the \<open>fields\<close> record has, for each column name, one entry, typed from the last column of
  that name in field order; so a column that no later column shares its name with has its
  own type under its name, and with distinct column names every column has.
\<close>

theorem runQuery_fields_last_column_wins:
  assumes "connect L this = (tr, Inr pool)"
    and "pool_query L pool sql = Inr results"
  shows "\<exists>out. snd (runQuery L this sql) = Inr out
           \<and> rq_rows out = res_rows results
           \<and> dom (rq_fields out) = name ` set (res_fields results)
           \<and> (\<forall>n. rq_fields out n
                 = (case find (\<lambda>f. name f = n) (rev (res_fields results)) of
                      None \<Rightarrow> None
                    | Some f \<Rightarrow>
                        Some \<lparr>field_type = convertDataTypeIdToDimensionType (pg_types L)
                                              (dataTypeID f)\<rparr>))
           \<and> (\<forall>fs1 f fs2. res_fields results = fs1 @ f # fs2
                  \<and> \<not> (\<exists>g \<in> set fs2. name g = name f) \<longrightarrow>
                rq_fields out (name f)
                  = Some \<lparr>field_type = convertDataTypeIdToDimensionType (pg_types L)
                                        (dataTypeID f)\<rparr>)
           \<and> (distinct (map name (res_fields results)) \<longrightarrow>
                (\<forall>f \<in> set (res_fields results).
                   rq_fields out (name f)
                     = Some \<lparr>field_type = convertDataTypeIdToDimensionType (pg_types L)
                                           (dataTypeID f)\<rparr>))"
proof -
  let ?fs = "res_fields results"
  let ?out = "\<lparr>rq_fields = fields_of (pg_types L) ?fs, rq_rows = res_rows results\<rparr>"
  have run: "snd (runQuery L this sql) = Inr ?out"
    by (simp add: runQuery_succeeds [OF assms])
  have own: "fields_of (pg_types L) ?fs (name f)
             = Some \<lparr>field_type = convertDataTypeIdToDimensionType (pg_types L) (dataTypeID f)\<rparr>"
    if "distinct (map name ?fs)" "f \<in> set ?fs" for f
  proof -
    from that(2) obtain fs1 fs2 where split: "?fs = fs1 @ f # fs2"
      by (auto simp: in_set_conv_decomp)
    with that(1) have "name f \<notin> name ` set fs2"
      by simp
    then have "\<not> (\<exists>g \<in> set fs2. name g = name f)"
      by (metis imageI)
    with split show ?thesis by (rule fields_of_last_named)
  qed
  have "rq_rows ?out = res_rows results
        \<and> dom (rq_fields ?out) = name ` set ?fs
        \<and> (\<forall>n. rq_fields ?out n
              = (case find (\<lambda>f. name f = n) (rev ?fs) of
                   None \<Rightarrow> None
                 | Some f \<Rightarrow>
                     Some \<lparr>field_type = convertDataTypeIdToDimensionType (pg_types L)
                                           (dataTypeID f)\<rparr>))
        \<and> (\<forall>fs1 f fs2. ?fs = fs1 @ f # fs2 \<and> \<not> (\<exists>g \<in> set fs2. name g = name f) \<longrightarrow>
             rq_fields ?out (name f)
               = Some \<lparr>field_type = convertDataTypeIdToDimensionType (pg_types L)
                                     (dataTypeID f)\<rparr>)
        \<and> (distinct (map name ?fs) \<longrightarrow>
             (\<forall>f \<in> set ?fs.
                rq_fields ?out (name f)
                  = Some \<lparr>field_type = convertDataTypeIdToDimensionType (pg_types L)
                                        (dataTypeID f)\<rparr>))"
    using own by (auto simp: dom_fields_of fields_of_last [symmetric] intro: fields_of_last_named)
  with run show ?thesis by blast
qed

theorem runQuery_fields_last_column_wins_witness:
  "connect (example_libs [(7::int), 8]) example_client
     = ([NewPool example_config], Inr example_config)
   \<and> pool_query (example_libs [(7::int), 8]) example_config ''SELECT id, created, id''
       = Inr \<lparr>res_fields = example_fields, res_rows = [7, 8]\<rparr>
   \<and> example_fields
       = [\<lparr>name = ''id'', dataTypeID = 23\<rparr>, \<lparr>name = ''created'', dataTypeID = 1114\<rparr>]
         @ \<lparr>name = ''id'', dataTypeID = 25\<rparr> # []
   \<and> (\<exists>out. snd (runQuery (example_libs [(7::int), 8]) example_client
                    ''SELECT id, created, id'') = Inr out
          \<and> rq_rows out = [7, 8]
          \<and> rq_fields out ''id'' = Some \<lparr>field_type = STRING\<rparr>)"
proof -
  let ?L = "example_libs [(7::int), 8]"
  let ?f = "\<lparr>name = ''id'', dataTypeID = 25\<rparr>"
  have h1: "connect ?L example_client = ([NewPool example_config], Inr example_config)"
    by (simp add: connect_def example_client_def example_libs_def call_new_Pool_def
        io_catch_def)
  have h2: "pool_query ?L example_config ''SELECT id, created, id''
            = Inr \<lparr>res_fields = example_fields, res_rows = [7, 8]\<rparr>"
    by (simp add: example_libs_def)
  have h3: "example_fields
       = [\<lparr>name = ''id'', dataTypeID = 23\<rparr>, \<lparr>name = ''created'', dataTypeID = 1114\<rparr>]
         @ ?f # []"
    by (simp add: example_fields_def)
  have ty: "convertDataTypeIdToDimensionType (pg_types ?L) (dataTypeID ?f) = STRING"
    by (simp add: example_libs_def convertDataTypeIdToDimensionType_def pg_builtins_def)
  from runQuery_fields_last_column_wins [OF h1 h2]
  obtain out where out: "snd (runQuery ?L example_client ''SELECT id, created, id'') = Inr out"
    "rq_rows out = [7, 8]"
    "\<forall>fs1 f fs2. example_fields = fs1 @ f # fs2
                  \<and> \<not> (\<exists>g \<in> set fs2. name g = name f) \<longrightarrow>
                rq_fields out (name f)
                  = Some \<lparr>field_type = convertDataTypeIdToDimensionType (pg_types ?L)
                                        (dataTypeID f)\<rparr>"
    by auto
  from out(3) h3 have "rq_fields out (name ?f)
      = Some \<lparr>field_type = convertDataTypeIdToDimensionType (pg_types ?L) (dataTypeID ?f)\<rparr>"
    by (metis empty_iff empty_set)
  with ty have "rq_fields out ''id'' = Some \<lparr>field_type = STRING\<rparr>"
    by simp
  with out(1,2) h1 h2 h3 show ?thesis by blast
qed

text \<open>
  C9: the three sets \<open>getCatalog\<close> builds hold the requested database, schema and table
  values, each distinct value once, in the order of first occurrence, each wrapped in single
  quotes by concatenation, whatever characters the value has; the SQL text is the fixed
  template with the three sets as its three IN-lists, the elements of a set written one
  after the other with a comma between two of them, and it is the query that \<open>getCatalog\<close>
  sends. For three requests, two of them equal and one with a quote in its table name, the
  text is written out.
\<close>

theorem getCatalog_in_lists:
  "databases (request_sets requests) = map quoted (first_occurrences (map database requests))
   \<and> schemas (request_sets requests) = map quoted (first_occurrences (map schema requests))
   \<and> tables (request_sets requests) = map quoted (first_occurrences (map table requests))
   \<and> distinct (first_occurrences (map database requests))
   \<and> distinct (first_occurrences (map schema requests))
   \<and> distinct (first_occurrences (map table requests))
   \<and> set (first_occurrences (map database requests)) = database ` set requests
   \<and> set (first_occurrences (map schema requests)) = schema ` set requests
   \<and> set (first_occurrences (map table requests)) = table ` set requests
   \<and> distinct (databases (request_sets requests))
   \<and> distinct (schemas (request_sets requests))
   \<and> distinct (tables (request_sets requests))
   \<and> quoted v = [CHR 0x27] @ v @ [CHR 0x27]
   \<and> join_comma [] = []
   \<and> join_comma [x] = x
   \<and> join_comma (x # y # ys) = x @ '','' @ join_comma (y # ys)
   \<and> length (join_comma (x # ys)) = length x + sum_list (map (\<lambda>y. Suc (length y)) ys)
   \<and> catalog_query (request_sets requests) =
        nl @ ''            SELECT table_catalog,''
        @ nl @ ''                   table_schema,''
        @ nl @ ''                   table_name,''
        @ nl @ ''                   column_name,''
        @ nl @ ''                   data_type''
        @ nl @ ''            FROM information_schema.columns''
        @ nl @ ''            WHERE table_catalog IN (''
        @ join_comma (map quoted (first_occurrences (map database requests))) @ '')''
        @ nl @ ''              AND table_schema IN (''
        @ join_comma (map quoted (first_occurrences (map schema requests))) @ '')''
        @ nl @ ''              AND table_name IN (''
        @ join_comma (map quoted (first_occurrences (map table requests))) @ '')''
        @ nl @ ''        ''
   \<and> queries_of (fst (getCatalog L this requests))
       = (if requests = [] then []
          else case snd (connect L this) of
                 Inl e \<Rightarrow> [] | Inr pool \<Rightarrow> [catalog_query (request_sets requests)])
   \<and> catalog_query (request_sets requests_with_quote) =
        [CHR 0x0A] @ ''            SELECT table_catalog,''
        @ [CHR 0x0A] @ ''                   table_schema,''
        @ [CHR 0x0A] @ ''                   table_name,''
        @ [CHR 0x0A] @ ''                   column_name,''
        @ [CHR 0x0A] @ ''                   data_type''
        @ [CHR 0x0A] @ ''            FROM information_schema.columns''
        @ [CHR 0x0A] @ ''            WHERE table_catalog IN (''
        @ [CHR 0x27] @ ''warehouse'' @ [CHR 0x27] @ '')''
        @ [CHR 0x0A] @ ''              AND table_schema IN (''
        @ [CHR 0x27] @ ''public'' @ [CHR 0x27] @ '','' @ [CHR 0x27] @ ''crm'' @ [CHR 0x27] @ '')''
        @ [CHR 0x0A] @ ''              AND table_name IN (''
        @ [CHR 0x27] @ ''orders'' @ [CHR 0x27] @ '','' @ [CHR 0x27] @ ''o'' @ [CHR 0x27]
        @ ''brien'' @ [CHR 0x27] @ '')''
        @ [CHR 0x0A] @ ''        ''"
proof -
  have sets: "databases (request_sets requests)
                = map quoted (first_occurrences (map database requests))"
    "schemas (request_sets requests) = map quoted (first_occurrences (map schema requests))"
    "tables (request_sets requests) = map quoted (first_occurrences (map table requests))"
    by (simp_all add: request_sets_first_occurrences)
  have dist: "distinct (first_occurrences (map database requests))"
    "distinct (first_occurrences (map schema requests))"
    "distinct (first_occurrences (map table requests))"
    by (rule distinct_first_occurrences)+
  have elems: "set (first_occurrences (map database requests)) = database ` set requests"
    "set (first_occurrences (map schema requests)) = schema ` set requests"
    "set (first_occurrences (map table requests)) = table ` set requests"
    by (simp_all add: set_first_occurrences)
  have dq: "distinct (map quoted (first_occurrences xs))" for xs
    by (simp add: distinct_map distinct_first_occurrences inj_on_def quoted_def)
  have dist': "distinct (databases (request_sets requests))"
    "distinct (schemas (request_sets requests))"
    "distinct (tables (request_sets requests))"
    by (simp_all only: sets dq)
  have quote: "quoted v = [CHR 0x27] @ v @ [CHR 0x27]"
    by (simp add: quoted_def squote_def)
  have join: "join_comma [] = []" "join_comma [x] = x"
    "join_comma (x # y # ys) = x @ '','' @ join_comma (y # ys)"
    by simp_all
  have len: "length (join_comma (x # ys)) = length x + sum_list (map (\<lambda>y. Suc (length y)) ys)"
    by (induction ys arbitrary: x) simp_all
  have query: "catalog_query (request_sets requests) =
        nl @ ''            SELECT table_catalog,''
        @ nl @ ''                   table_schema,''
        @ nl @ ''                   table_name,''
        @ nl @ ''                   column_name,''
        @ nl @ ''                   data_type''
        @ nl @ ''            FROM information_schema.columns''
        @ nl @ ''            WHERE table_catalog IN (''
        @ join_comma (map quoted (first_occurrences (map database requests))) @ '')''
        @ nl @ ''              AND table_schema IN (''
        @ join_comma (map quoted (first_occurrences (map schema requests))) @ '')''
        @ nl @ ''              AND table_name IN (''
        @ join_comma (map quoted (first_occurrences (map table requests))) @ '')''
        @ nl @ ''        ''"
    unfolding catalog_query_def sets ..
  have sent: "queries_of (fst (getCatalog L this requests))
       = (if requests = [] then []
          else case snd (connect L this) of
                 Inl e \<Rightarrow> [] | Inr pool \<Rightarrow> [catalog_query (request_sets requests)])"
    by (rule getCatalog_queries)
  have ex: "catalog_query (request_sets requests_with_quote) =
        [CHR 0x0A] @ ''            SELECT table_catalog,''
        @ [CHR 0x0A] @ ''                   table_schema,''
        @ [CHR 0x0A] @ ''                   table_name,''
        @ [CHR 0x0A] @ ''                   column_name,''
        @ [CHR 0x0A] @ ''                   data_type''
        @ [CHR 0x0A] @ ''            FROM information_schema.columns''
        @ [CHR 0x0A] @ ''            WHERE table_catalog IN (''
        @ [CHR 0x27] @ ''warehouse'' @ [CHR 0x27] @ '')''
        @ [CHR 0x0A] @ ''              AND table_schema IN (''
        @ [CHR 0x27] @ ''public'' @ [CHR 0x27] @ '','' @ [CHR 0x27] @ ''crm'' @ [CHR 0x27] @ '')''
        @ [CHR 0x0A] @ ''              AND table_name IN (''
        @ [CHR 0x27] @ ''orders'' @ [CHR 0x27] @ '','' @ [CHR 0x27] @ ''o'' @ [CHR 0x27]
        @ ''brien'' @ [CHR 0x27] @ '')''
        @ [CHR 0x0A] @ ''        ''"
    by (simp add: catalog_query_def request_sets_def requests_with_quote_def Set_add_def
        quoted_def squote_def nl_def)
  from sets dist elems dist' quote join len query sent ex show ?thesis
    by (intro conjI)
qed

theorem getCatalog_in_lists_witness:
  "queries_of (fst (getCatalog (example_libs []) example_client requests_with_quote))
     = [[CHR 0x0A] @ ''            SELECT table_catalog,''
        @ [CHR 0x0A] @ ''                   table_schema,''
        @ [CHR 0x0A] @ ''                   table_name,''
        @ [CHR 0x0A] @ ''                   column_name,''
        @ [CHR 0x0A] @ ''                   data_type''
        @ [CHR 0x0A] @ ''            FROM information_schema.columns''
        @ [CHR 0x0A] @ ''            WHERE table_catalog IN (''
        @ [CHR 0x27] @ ''warehouse'' @ [CHR 0x27] @ '')''
        @ [CHR 0x0A] @ ''              AND table_schema IN (''
        @ [CHR 0x27] @ ''public'' @ [CHR 0x27] @ '','' @ [CHR 0x27] @ ''crm'' @ [CHR 0x27] @ '')''
        @ [CHR 0x0A] @ ''              AND table_name IN (''
        @ [CHR 0x27] @ ''orders'' @ [CHR 0x27] @ '','' @ [CHR 0x27] @ ''o'' @ [CHR 0x27]
        @ ''brien'' @ [CHR 0x27] @ '')''
        @ [CHR 0x0A] @ ''        '']
   \<and> databases (request_sets requests_with_quote) = [[CHR 0x27] @ ''warehouse'' @ [CHR 0x27]]
   \<and> schemas (request_sets requests_with_quote)
       = [[CHR 0x27] @ ''public'' @ [CHR 0x27], [CHR 0x27] @ ''crm'' @ [CHR 0x27]]
   \<and> tables (request_sets requests_with_quote)
       = [[CHR 0x27] @ ''orders'' @ [CHR 0x27],
          [CHR 0x27] @ ''o'' @ [CHR 0x27] @ ''brien'' @ [CHR 0x27]]"
proof -
  let ?L = "example_libs [] :: CatalogRow libs"
  note T = getCatalog_in_lists
    [of requests_with_quote undefined undefined undefined undefined ?L
      example_client]
  have ne: "requests_with_quote \<noteq> []"
    by (simp add: requests_with_quote_def)
  have con: "snd (connect ?L example_client) = Inr example_config"
    by (simp add: connect_def example_client_def example_libs_def call_new_Pool_def
        io_catch_def)
  from T have sent: "queries_of (fst (getCatalog ?L example_client
                       requests_with_quote))
       = (if requests_with_quote = [] then []
          else case snd (connect ?L example_client) of
                 Inl e \<Rightarrow> []
               | Inr pool \<Rightarrow> [catalog_query (request_sets requests_with_quote)])"
    by (elim conjE)
  from T have qtext: "catalog_query (request_sets requests_with_quote) =
        [CHR 0x0A] @ ''            SELECT table_catalog,''
        @ [CHR 0x0A] @ ''                   table_schema,''
        @ [CHR 0x0A] @ ''                   table_name,''
        @ [CHR 0x0A] @ ''                   column_name,''
        @ [CHR 0x0A] @ ''                   data_type''
        @ [CHR 0x0A] @ ''            FROM information_schema.columns''
        @ [CHR 0x0A] @ ''            WHERE table_catalog IN (''
        @ [CHR 0x27] @ ''warehouse'' @ [CHR 0x27] @ '')''
        @ [CHR 0x0A] @ ''              AND table_schema IN (''
        @ [CHR 0x27] @ ''public'' @ [CHR 0x27] @ '','' @ [CHR 0x27] @ ''crm'' @ [CHR 0x27] @ '')''
        @ [CHR 0x0A] @ ''              AND table_name IN (''
        @ [CHR 0x27] @ ''orders'' @ [CHR 0x27] @ '','' @ [CHR 0x27] @ ''o'' @ [CHR 0x27]
        @ ''brien'' @ [CHR 0x27] @ '')''
        @ [CHR 0x0A] @ ''        ''"
    by (elim conjE)
  from T have d: "databases (request_sets requests_with_quote)
        = map quoted (first_occurrences (map database requests_with_quote))"
    by (elim conjE)
  from T have s: "schemas (request_sets requests_with_quote)
        = map quoted (first_occurrences (map schema requests_with_quote))"
    by (elim conjE)
  from T have t: "tables (request_sets requests_with_quote)
        = map quoted (first_occurrences (map table requests_with_quote))"
    by (elim conjE)
  have q: "queries_of (fst (getCatalog ?L example_client requests_with_quote))
     = [[CHR 0x0A] @ ''            SELECT table_catalog,''
        @ [CHR 0x0A] @ ''                   table_schema,''
        @ [CHR 0x0A] @ ''                   table_name,''
        @ [CHR 0x0A] @ ''                   column_name,''
        @ [CHR 0x0A] @ ''                   data_type''
        @ [CHR 0x0A] @ ''            FROM information_schema.columns''
        @ [CHR 0x0A] @ ''            WHERE table_catalog IN (''
        @ [CHR 0x27] @ ''warehouse'' @ [CHR 0x27] @ '')''
        @ [CHR 0x0A] @ ''              AND table_schema IN (''
        @ [CHR 0x27] @ ''public'' @ [CHR 0x27] @ '','' @ [CHR 0x27] @ ''crm'' @ [CHR 0x27] @ '')''
        @ [CHR 0x0A] @ ''              AND table_name IN (''
        @ [CHR 0x27] @ ''orders'' @ [CHR 0x27] @ '','' @ [CHR 0x27] @ ''o'' @ [CHR 0x27]
        @ ''brien'' @ [CHR 0x27] @ '')''
        @ [CHR 0x0A] @ ''        '']"
    by (simp add: sent ne con qtext)
  have d': "databases (request_sets requests_with_quote)
              = [[CHR 0x27] @ ''warehouse'' @ [CHR 0x27]]"
    unfolding d by (simp add: requests_with_quote_def quoted_def squote_def)
  have s': "schemas (request_sets requests_with_quote)
       = [[CHR 0x27] @ ''public'' @ [CHR 0x27], [CHR 0x27] @ ''crm'' @ [CHR 0x27]]"
    unfolding s by (simp add: requests_with_quote_def quoted_def squote_def)
  have t': "tables (request_sets requests_with_quote)
       = [[CHR 0x27] @ ''orders'' @ [CHR 0x27],
          [CHR 0x27] @ ''o'' @ [CHR 0x27] @ ''brien'' @ [CHR 0x27]]"
    unfolding t by (simp add: requests_with_quote_def quoted_def squote_def)
  from q d' s' t' show ?thesis by (intro conjI)
qed

section \<open>Properties of the constructor\<close>

text \<open>
  C8: in the client the constructor builds from a credentials record, the host, database,
  user and password of the pool configuration are what \<open>encodeURIComponent\<close> returns for the
  credentials' host, dbname, user and password; the port and the SSH tunnel settings are
  those of the credentials, as they are; the ssl option is what \<open>getSSLConfigFromMode\<close>
  returns for the sslmode, and is undefined when the sslmode is absent (or the empty
  string). The constructor builds a client exactly when neither \<open>getSSLConfigFromMode\<close> nor
  one of the four calls of \<open>encodeURIComponent\<close> throws; an error of
  \<open>getSSLConfigFromMode\<close> is the constructor's error.
\<close>

theorem PostgresWarehouseClient_config:
  "(PostgresWarehouseClient enc credentials = Inr this \<longrightarrow>
      (\<exists>h. enc (host credentials) = Inr h \<and> cfg_host (client_config this) = Some h)
      \<and> (\<exists>d. enc (dbname credentials) = Inr d
             \<and> cfg_database (client_config this) = Some d)
      \<and> (\<exists>u. enc (user credentials) = Inr u \<and> cfg_user (client_config this) = Some u)
      \<and> (\<exists>p. enc (password credentials) = Inr p
             \<and> cfg_password (client_config this) = Some p)
      \<and> cfg_port (client_config this) = Some (port credentials)
      \<and> client_sshTunnel this = sshTunnel credentials
      \<and> (sslmode credentials = None \<or> sslmode credentials = Some []
            \<longrightarrow> cfg_ssl (client_config this) = None)
      \<and> (\<forall>mode. sslmode credentials = Some mode \<and> mode \<noteq> [] \<longrightarrow>
            (\<exists>v. getSSLConfigFromMode mode = Inr v \<and> cfg_ssl (client_config this) = Some v)))
   \<and> (sslmode credentials = None
        \<and> enc (host credentials) = Inr encoded_host
        \<and> enc (dbname credentials) = Inr encoded_database
        \<and> enc (user credentials) = Inr encoded_user
        \<and> enc (password credentials) = Inr encoded_password \<longrightarrow>
        (\<exists>client. PostgresWarehouseClient enc credentials = Inr client
           \<and> cfg_ssl (client_config client) = None))
   \<and> ((\<exists>client. PostgresWarehouseClient enc credentials = Inr client)
        \<longleftrightarrow> (sslmode credentials = None \<or> sslmode credentials = Some []
               \<or> (\<exists>mode \<in> set ssl_modes. sslmode credentials = Some mode))
            \<and> (\<exists>h. enc (host credentials) = Inr h)
            \<and> (\<exists>d. enc (dbname credentials) = Inr d)
            \<and> (\<exists>u. enc (user credentials) = Inr u)
            \<and> (\<exists>p. enc (password credentials) = Inr p))
   \<and> (\<forall>mode e. sslmode credentials = Some mode \<and> mode \<noteq> []
          \<and> getSSLConfigFromMode mode = Inl e
        \<longrightarrow> PostgresWarehouseClient enc credentials = Inl e)"
proof -
  let ?ssl = "case sslmode credentials of
              None \<Rightarrow> Inr None
            | Some mode \<Rightarrow>
                if mode = [] then Inr None
                else (case getSSLConfigFromMode mode of
                        Inl e \<Rightarrow> Inl e | Inr v \<Rightarrow> Inr (Some v))"
  have modes: "(\<exists>v. getSSLConfigFromMode mode = Inr v) \<longleftrightarrow> mode \<in> set ssl_modes" for mode
    unfolding getSSLConfigFromMode_def ssl_modes_def by simp
  have ssl_ok: "(\<exists>v. ?ssl = Inr v)
        \<longleftrightarrow> (sslmode credentials = None \<or> sslmode credentials = Some []
               \<or> (\<exists>mode \<in> set ssl_modes. sslmode credentials = Some mode))"
  proof (cases "sslmode credentials")
    case None
    then show ?thesis by simp
  next
    case (Some mode)
    show ?thesis
    proof (cases "mode = []")
      case True
      with Some show ?thesis by simp
    next
      case False
      have "(\<exists>v. ?ssl = Inr v) \<longleftrightarrow> (\<exists>v. getSSLConfigFromMode mode = Inr v)"
        using Some False by (auto split: sum.splits)
      with Some False modes [of mode] show ?thesis by simp
    qed
  qed
  have built: "(\<exists>client. PostgresWarehouseClient enc credentials = Inr client)
        \<longleftrightarrow> (\<exists>v. ?ssl = Inr v)
            \<and> (\<exists>h. enc (host credentials) = Inr h)
            \<and> (\<exists>d. enc (dbname credentials) = Inr d)
            \<and> (\<exists>u. enc (user credentials) = Inr u)
            \<and> (\<exists>p. enc (password credentials) = Inr p)"
    unfolding PostgresWarehouseClient_def
    by (cases ?ssl; cases "enc (host credentials)"; cases "enc (dbname credentials)";
        cases "enc (user credentials)"; cases "enc (password credentials)") simp_all
  have a: "PostgresWarehouseClient enc credentials = Inr this \<longrightarrow>
      (\<exists>h. enc (host credentials) = Inr h \<and> cfg_host (client_config this) = Some h)
      \<and> (\<exists>d. enc (dbname credentials) = Inr d
             \<and> cfg_database (client_config this) = Some d)
      \<and> (\<exists>u. enc (user credentials) = Inr u \<and> cfg_user (client_config this) = Some u)
      \<and> (\<exists>p. enc (password credentials) = Inr p
             \<and> cfg_password (client_config this) = Some p)
      \<and> cfg_port (client_config this) = Some (port credentials)
      \<and> client_sshTunnel this = sshTunnel credentials
      \<and> (sslmode credentials = None \<or> sslmode credentials = Some []
            \<longrightarrow> cfg_ssl (client_config this) = None)
      \<and> (\<forall>mode. sslmode credentials = Some mode \<and> mode \<noteq> [] \<longrightarrow>
            (\<exists>v. getSSLConfigFromMode mode = Inr v \<and> cfg_ssl (client_config this) = Some v))"
    by (auto simp: PostgresWarehouseClient_def split: option.splits sum.splits if_splits)
  have b: "sslmode credentials = None
        \<and> enc (host credentials) = Inr encoded_host
        \<and> enc (dbname credentials) = Inr encoded_database
        \<and> enc (user credentials) = Inr encoded_user
        \<and> enc (password credentials) = Inr encoded_password \<longrightarrow>
        (\<exists>client. PostgresWarehouseClient enc credentials = Inr client
           \<and> cfg_ssl (client_config client) = None)"
    by (simp add: PostgresWarehouseClient_def)
  have c: "(\<exists>client. PostgresWarehouseClient enc credentials = Inr client)
        \<longleftrightarrow> (sslmode credentials = None \<or> sslmode credentials = Some []
               \<or> (\<exists>mode \<in> set ssl_modes. sslmode credentials = Some mode))
            \<and> (\<exists>h. enc (host credentials) = Inr h)
            \<and> (\<exists>d. enc (dbname credentials) = Inr d)
            \<and> (\<exists>u. enc (user credentials) = Inr u)
            \<and> (\<exists>p. enc (password credentials) = Inr p)"
    unfolding built ssl_ok ..
  have d: "\<forall>mode e. sslmode credentials = Some mode \<and> mode \<noteq> []
          \<and> getSSLConfigFromMode mode = Inl e
        \<longrightarrow> PostgresWarehouseClient enc credentials = Inl e"
    by (simp add: PostgresWarehouseClient_def)
  from a b c d show ?thesis by (intro conjI)
qed

theorem PostgresWarehouseClient_config_witness:
  "PostgresWarehouseClient encode_utf8 example_credentials
     = Inr \<lparr>client_config =
              \<lparr>cfg_host = Some ''db.internal'', cfg_port = Some 5432,
               cfg_database = Some ''ware%20house'', cfg_user = Some ''reader'',
               cfg_password = Some ''p%40ss%2Fword'', cfg_ssl = None\<rparr>,
            client_sshTunnel = Some example_tunnel\<rparr>
   \<and> sslmode example_credentials = None
   \<and> encode_utf8 (host example_credentials) = Inr ''db.internal''
   \<and> encode_utf8 (dbname example_credentials) = Inr ''ware%20house''
   \<and> encode_utf8 (user example_credentials) = Inr ''reader''
   \<and> encode_utf8 (password example_credentials) = Inr ''p%40ss%2Fword''
   \<and> (\<exists>client. PostgresWarehouseClient encode_utf8 example_credentials = Inr client
         \<and> cfg_ssl (client_config client) = None)
   \<and> PostgresWarehouseClient encode_throws example_credentials
       = Inl (URIError ''URI malformed'')"
proof -
  let ?client = "\<lparr>client_config =
              \<lparr>cfg_host = Some ''db.internal'', cfg_port = Some 5432,
               cfg_database = Some ''ware%20house'', cfg_user = Some ''reader'',
               cfg_password = Some ''p%40ss%2Fword'', cfg_ssl = None\<rparr>,
            client_sshTunnel = Some example_tunnel\<rparr>"
  have n: "sslmode example_credentials = None"
    by (simp add: example_credentials_def)
  have e: "encode_utf8 (host example_credentials) = Inr ''db.internal''"
    "encode_utf8 (dbname example_credentials) = Inr ''ware%20house''"
    "encode_utf8 (user example_credentials) = Inr ''reader''"
    "encode_utf8 (password example_credentials) = Inr ''p%40ss%2Fword''"
    by (simp_all add: example_credentials_def encode_utf8_def encodeURIComponent_utf8_def
        percent_encode_def uri_unreserved_def hex_digit_def squote_def)
  from PostgresWarehouseClient_config
    [of encode_utf8 example_credentials _ "''db.internal''" "''ware%20house''" "''reader''"
      "''p%40ss%2Fword''"] n e
  have ex: "\<exists>client. PostgresWarehouseClient encode_utf8 example_credentials = Inr client
         \<and> cfg_ssl (client_config client) = None"
    by blast
  have f: "port example_credentials = 5432"
    "sshTunnel example_credentials = Some example_tunnel"
    by (simp_all add: example_credentials_def)
  have h: "PostgresWarehouseClient encode_utf8 example_credentials = Inr ?client"
    by (simp add: PostgresWarehouseClient_def n e f)
  have t: "PostgresWarehouseClient encode_throws example_credentials
       = Inl (URIError ''URI malformed'')"
    by (simp add: PostgresWarehouseClient_def encode_throws_def n)
  from h n e ex t show ?thesis by (intro conjI)
qed

end
